theory Spec2Isabelle
  imports Complex_Main
begin

section \<open>JSON values and the Python operations the code applies to them\<close>

text \<open>
  The values the program handles are decoded JSON documents: the webhook payload and the
  pages of the metadata API. A Python dict keeps its items in insertion order, so an
  object is an association list; its keys are distinct, and the operations below keep
  them so. A number with a fraction or an exponent decodes to a float: a finite one is
  kept by its exact value, and a literal too large for a float decodes to an infinity.
\<close>

datatype py_float = Finite rat | PosInf | NegInf | NaN

datatype json =
    JNull
  | JBool bool
  | JInt int
  | JFloat py_float
  | JStr string
  | JList "json list"
  | JObj "(string \<times> json) list"

type_synonym dict = "(string \<times> json) list"

datatype py_error =
    KeyError string
  | TypeError
  | AttributeError
  | ValueError string
  | OverflowError
  | JSONDecodeError
  | HTTPError nat
  | HTTPException nat string

text \<open>Truth value of a Python object, as \<^verbatim>\<open>if x\<close>, \<^verbatim>\<open>not x\<close> and \<^verbatim>\<open>x and y\<close> test it.\<close>

fun py_truthy :: "json \<Rightarrow> bool" where
  "py_truthy JNull = False"
| "py_truthy (JBool b) = b"
| "py_truthy (JInt i) = (i \<noteq> 0)"
| "py_truthy (JFloat f) = (f \<noteq> Finite 0)"
| "py_truthy (JStr s) = (s \<noteq> [])"
| "py_truthy (JList xs) = (xs \<noteq> [])"
| "py_truthy (JObj d) = (d \<noteq> [])"

text \<open>\<^verbatim>\<open>x == n\<close> for an int \<open>n\<close>: numbers compare by value (a bool is the int 0 or 1),
  anything else is unequal.\<close>

fun py_eq_int :: "json \<Rightarrow> int \<Rightarrow> bool" where
  "py_eq_int (JInt i) n = (i = n)"
| "py_eq_int (JBool b) n = ((if b then 1 else 0) = n)"
| "py_eq_int (JFloat f) n = (f = Finite (of_int n))"
| "py_eq_int _ n = False"

text \<open>\<^verbatim>\<open>x[key]\<close> with a string key: only a dict has string subscripts.\<close>

fun subscript :: "json \<Rightarrow> string \<Rightarrow> py_error + json" where
  "subscript (JObj d) k = (case map_of d k of None \<Rightarrow> Inl (KeyError k) | Some v \<Rightarrow> Inr v)"
| "subscript _ k = Inl TypeError"

text \<open>\<^verbatim>\<open>x.get(key, default)\<close>: a method of dicts only.\<close>

fun dict_get :: "json \<Rightarrow> string \<Rightarrow> json \<Rightarrow> py_error + json" where
  "dict_get (JObj d) k dflt = (case map_of d k of None \<Rightarrow> Inr dflt | Some v \<Rightarrow> Inr v)"
| "dict_get _ k dflt = Inl AttributeError"

text \<open>
  \<^verbatim>\<open>x.lower()\<close>: a method of strings only. What \<^verbatim>\<open>str.lower\<close> makes of a string
  with letters in it is the library's business and a parameter here, \<open>lower\<close>; the
  empty string has nothing to lower.
\<close>

fun py_lower :: "(string \<Rightarrow> string) \<Rightarrow> json \<Rightarrow> py_error + string" where
  "py_lower lower (JStr s) = Inr (if s = [] then [] else lower s)"
| "py_lower lower _ = Inl AttributeError"

text \<open>\<^verbatim>\<open>d[k] = v\<close> on an ordered dict: an existing key keeps its place, a new one goes last.\<close>

fun dict_set :: "dict \<Rightarrow> string \<Rightarrow> json \<Rightarrow> dict" where
  "dict_set [] k v = [(k, v)]"
| "dict_set ((k', v') # d) k v = (if k' = k then (k, v) # d else (k', v') # dict_set d k v)"

text \<open>\<^verbatim>\<open>d.update(items)\<close>: the items are set one after the other.\<close>

fun dict_update :: "dict \<Rightarrow> dict \<Rightarrow> dict" where
  "dict_update d [] = d"
| "dict_update d ((k, v) # kvs) = dict_update (dict_set d k v) kvs"

section \<open>The run-scoped extraction (app.py, get_run_metadata)\<close>

text \<open>
  \<^verbatim>\<open>get_execution_info(node)\<close>, with the enclosing \<open>run_id\<close> as a parameter. The
  result \<open>in_run\<close> is the value of the \<^verbatim>\<open>and\<close> chain: its first falsy operand, or the
  comparison's bool. The key is \<open>None\<close> when the resource type is empty.
\<close>

definition get_execution_info ::
  "(string \<Rightarrow> string) \<Rightarrow> json \<Rightarrow> int \<Rightarrow> py_error + (json \<times> string option)" where
  "get_execution_info lower node run_id =
     (case dict_get node ''resourceType'' (JStr '''') of
        Inl e \<Rightarrow> Inl e
      | Inr rt \<Rightarrow>
          (case py_lower lower rt of
             Inl e \<Rightarrow> Inl e
           | Inr resource_type \<Rightarrow>
               if resource_type = [] then Inr (JNull, None)
               else
                 (let execution_info_key = resource_type @ ''ExecutionInfo'' in
                  case dict_get node execution_info_key JNull of
                    Inl e \<Rightarrow> Inl e
                  | Inr info \<Rightarrow>
                      if \<not> py_truthy info then Inr (info, Some execution_info_key)
                      else
                        (case dict_get info ''lastRunId'' JNull of
                           Inl e \<Rightarrow> Inl e
                         | Inr last_run_id \<Rightarrow>
                             Inr (JBool (py_eq_int last_run_id run_id),
                                  Some execution_info_key)))))"

text \<open>
  The dict display of the loop body:
  \<^verbatim>\<open>{**{k: v for k, v in node.items() if k != key}, "executionInfo": node[key]}\<close>.
  A key that is \<open>None\<close> differs from every string key and is in no dict.
\<close>

fun normalized_node :: "json \<Rightarrow> string option \<Rightarrow> py_error + json" where
  "normalized_node (JObj d) (Some key) =
     (case map_of d key of
        None \<Rightarrow> Inl (KeyError key)
      | Some v \<Rightarrow> Inr (JObj (dict_set (filter (\<lambda>(k, _). k \<noteq> key) d) ''executionInfo'' v)))"
| "normalized_node (JObj d) None = Inl (KeyError ''None'')"
| "normalized_node _ key = Inl AttributeError"

fun get_run_metadata_loop ::
  "(string \<Rightarrow> string) \<Rightarrow> json list \<Rightarrow> int \<Rightarrow> json list \<Rightarrow> py_error + json list" where
  "get_run_metadata_loop lower [] run_id all_nodes = Inr all_nodes"
| "get_run_metadata_loop lower (edge # edges) run_id all_nodes =
     (case subscript edge ''node'' of
        Inl e \<Rightarrow> Inl e
      | Inr node \<Rightarrow>
          (case get_execution_info lower node run_id of
             Inl e \<Rightarrow> Inl e
           | Inr (in_run, execution_info_key) \<Rightarrow>
               if py_truthy in_run then
                 (case normalized_node node execution_info_key of
                    Inl e \<Rightarrow> Inl e
                  | Inr n \<Rightarrow> get_run_metadata_loop lower edges run_id (all_nodes @ [n]))
               else get_run_metadata_loop lower edges run_id all_nodes))"

definition get_run_metadata ::
  "(string \<Rightarrow> string) \<Rightarrow> json list \<Rightarrow> int \<Rightarrow> py_error + json list" where
  "get_run_metadata lower edges run_id = get_run_metadata_loop lower edges run_id []"

section \<open>The batcher (app.py, chunker)\<close>

definition DATADOG_MAX_LIST_SIZE :: nat where
  "DATADOG_MAX_LIST_SIZE = 1000"

text \<open>\<^verbatim>\<open>range(start, stop, step)\<close> for a positive step, as the list of its values.\<close>

function py_range :: "nat \<Rightarrow> nat \<Rightarrow> nat \<Rightarrow> nat list" where
  "py_range start stop step =
     (if step = 0 \<or> stop \<le> start then [] else start # py_range (start + step) stop step)"
  by pat_completeness auto
termination
  by (relation "measure (\<lambda>(start, stop, step). stop - start)") auto

text \<open>\<^verbatim>\<open>seq[lo:hi]\<close> for indices that are not negative.\<close>

definition slice :: "'a list \<Rightarrow> nat \<Rightarrow> nat \<Rightarrow> 'a list" where
  "slice seq lo hi = take (hi - lo) (drop lo seq)"

text \<open>The generator of \<^verbatim>\<open>chunker\<close>, as the list of the slices it yields.\<close>

definition chunker :: "'a list \<Rightarrow> 'a list list" where
  "chunker seq =
     (let size = DATADOG_MAX_LIST_SIZE
      in map (\<lambda>pos. slice seq pos (pos + size)) (py_range 0 (length seq) size))"

section \<open>The metadata query client (client.py, DiscoveryApiClient)\<close>

text \<open>
  What the process reads from its environment. \<^verbatim>\<open>os.getenv\<close> gives \<open>None\<close> for a
  variable that is not set.
\<close>

record environ =
  DBT_CLOUD_SERVICE_TOKEN :: "string option"
  DBT_CLOUD_METADATA_URL :: "string option"
  DBT_CLOUD_WEBHOOK_SECRET :: "string option"

text \<open>
  An outbound \<^verbatim>\<open>requests.post(url, json=..., headers=...)\<close> and the response to it. A
  response whose body does not decode as JSON has no \<open>resp_json\<close>.
\<close>

record http_request =
  req_url :: string
  req_json :: json
  req_headers :: "(string \<times> string) list"

record http_response =
  status_code :: nat
  resp_json :: "json option"

text \<open>
  The metadata API answers the \<open>n\<close>-th request of an invocation (counted from 0) with
  a response that may depend on the request. Every request gets a response: a connection
  that fails is outside the model.
\<close>

type_synonym server = "nat \<Rightarrow> http_request \<Rightarrow> http_response"

datatype log_record = LogInfo string json | LogError string py_error

text \<open>An item of the Datadog SDK, \<^verbatim>\<open>HTTPLogItem\<close>.\<close>

record log_item =
  ddsource :: string
  ddtags :: string
  hostname :: string
  message :: string
  service :: string

text \<open>
  The effects of one invocation, in the order they happen: the requests sent to the
  metadata API, the records written to the logger, the batches handed to
  \<^verbatim>\<open>LogsApi.submit_log\<close>.
\<close>

record world =
  requests :: "http_request list"
  logged :: "log_record list"
  submitted :: "log_item list list"

text \<open>
  A call returns a value, raises, or is still running when the fuel, the number of
  page requests it may make, is used up.
\<close>

datatype 'a outcome = Returned 'a | Raised py_error | Running

record DiscoveryApiClient =
  environment_id :: json
  token :: string
  url :: string

definition DEFAULT_URL :: string where
  "DEFAULT_URL = ''https://metadata.cloud.getdbt.com/graphql''"

text \<open>\<^verbatim>\<open>DiscoveryApiClient.__init__\<close>\<close>

definition DiscoveryApiClient_init :: "environ \<Rightarrow> json \<Rightarrow> py_error + DiscoveryApiClient" where
  "DiscoveryApiClient_init env env_id =
     (case DBT_CLOUD_SERVICE_TOKEN env of
        None \<Rightarrow> Inl (ValueError ''DBT_CLOUD_SERVICE_TOKEN is not set'')
      | Some t \<Rightarrow>
          Inr \<lparr>environment_id = env_id, token = t,
               url = (case DBT_CLOUD_METADATA_URL env of None \<Rightarrow> DEFAULT_URL | Some u \<Rightarrow> u)\<rparr>)"

text \<open>\<^verbatim>\<open>response.raise_for_status()\<close> raises for the 4xx and 5xx codes.\<close>

definition raise_for_status :: "http_response \<Rightarrow> py_error + unit" where
  "raise_for_status response =
     (if 400 \<le> status_code response \<and> status_code response < 600
      then Inl (HTTPError (status_code response)) else Inr ())"

text \<open>
  \<^verbatim>\<open>_run_query_with_cursor\<close>. The caller's \<open>variables\<close> dict is updated in place, so
  the model returns it next to the result; with \<open>None\<close> a fresh dict is updated and the
  caller keeps \<open>None\<close>. The request body holds the updated dict.
\<close>

definition run_query_with_cursor ::
  "server \<Rightarrow> DiscoveryApiClient \<Rightarrow> string \<Rightarrow> dict option \<Rightarrow> json \<Rightarrow> int \<Rightarrow> world
     \<Rightarrow> (py_error + json) \<times> dict option \<times> world" where
  "run_query_with_cursor srv self query variables after_cursor limit w =
     (let headers = [(''Authorization'', ''Bearer '' @ token self),
                     (''content-type'', ''application/json'')];
          vars = dict_update (case variables of None \<Rightarrow> [] | Some d \<Rightarrow> d)
                   [(''environmentId'', environment_id self), (''limit'', JInt limit),
                    (''after'', after_cursor), (''first'', JInt limit)];
          variables' = (case variables of None \<Rightarrow> None | Some d \<Rightarrow> Some vars);
          json_data = JObj [(''query'', JStr query), (''variables'', JObj vars)];
          w1 = w\<lparr>logged := logged w @ [LogInfo '' - Querying API with after_cursor: '' after_cursor]\<rparr>;
          request = \<lparr>req_url = url self, req_json = json_data, req_headers = headers\<rparr>;
          response = srv (length (requests w1)) request;
          w2 = w1\<lparr>requests := requests w1 @ [request]\<rparr>
      in case raise_for_status response of
           Inl e \<Rightarrow> (Inl e, variables', w2)
         | Inr _ \<Rightarrow>
             (case resp_json response of
                None \<Rightarrow> (Inl JSONDecodeError, variables', w2)
              | Some j \<Rightarrow> (Inr j, variables', w2)))"

text \<open>\<^verbatim>\<open>x[k1][k2]...\<close>, left to right.\<close>

definition subscripts :: "json \<Rightarrow> string list \<Rightarrow> py_error + json" where
  "subscripts x ks =
     foldl (\<lambda>r k. case r of Inl e \<Rightarrow> Inl e | Inr v \<Rightarrow> subscript v k) (Inr x) ks"

text \<open>\<^verbatim>\<open>_get_next_page_cursor\<close>; \<open>None\<close> is \<open>JNull\<close>.\<close>

definition get_next_page_cursor :: "json \<Rightarrow> py_error + json" where
  "get_next_page_cursor api_response =
     (case subscripts api_response [''data'', ''environment'', ''applied'', ''resources''] of
        Inl e \<Rightarrow> Inl e
      | Inr resources \<Rightarrow>
          (case subscript resources ''pageInfo'' of
             Inl e \<Rightarrow> Inl e
           | Inr page \<Rightarrow>
               (case dict_get page ''hasNextPage'' (JBool False) of
                  Inl e \<Rightarrow> Inl e
                | Inr has_next \<Rightarrow>
                    if py_truthy has_next then subscript page ''endCursor'' else Inr JNull)))"

text \<open>\<^verbatim>\<open>_extract_query_results\<close>\<close>

definition extract_query_results :: "json \<Rightarrow> py_error + json" where
  "extract_query_results api_response =
     (case subscripts api_response [''data'', ''environment'', ''applied'', ''resources''] of
        Inl e \<Rightarrow> Inl e
      | Inr resources \<Rightarrow> subscript resources ''edges'')"

text \<open>
  The items \<^verbatim>\<open>list.extend(x)\<close> appends: the elements of a list, the keys of a dict, the
  characters of a string; anything else is not iterable.
\<close>

fun py_iter :: "json \<Rightarrow> py_error + json list" where
  "py_iter (JList xs) = Inr xs"
| "py_iter (JObj d) = Inr (map (\<lambda>kv. JStr (fst kv)) d)"
| "py_iter (JStr s) = Inr (map (\<lambda>c. JStr [c]) s)"
| "py_iter _ = Inl TypeError"

text \<open>
  The \<^verbatim>\<open>while True\<close> loop of \<^verbatim>\<open>run_query\<close>, one page request for each unit of fuel.
\<close>

fun run_query_loop ::
  "nat \<Rightarrow> server \<Rightarrow> DiscoveryApiClient \<Rightarrow> string \<Rightarrow> dict option \<Rightarrow> int \<Rightarrow> json
     \<Rightarrow> json list \<Rightarrow> nat \<Rightarrow> world \<Rightarrow> json list outcome \<times> dict option \<times> world" where
  "run_query_loop 0 srv self query variables limit cursor all_results page w =
     (Running, variables, w)"
| "run_query_loop (Suc fuel) srv self query variables limit cursor all_results page w =
     (case run_query_with_cursor srv self query variables cursor limit w of
        (Inl e, variables', w') \<Rightarrow> (Raised e, variables', w')
      | (Inr api_response, variables', w') \<Rightarrow>
          (case get_next_page_cursor api_response of
             Inl e \<Rightarrow> (Raised e, variables', w')
           | Inr cursor' \<Rightarrow>
               (case extract_query_results api_response of
                  Inl e \<Rightarrow> (Raised e, variables', w')
                | Inr results \<Rightarrow>
                    (case py_iter results of
                       Inl e \<Rightarrow> (Raised e, variables', w')
                     | Inr items \<Rightarrow>
                         if \<not> py_truthy cursor'
                         then (Returned (all_results @ items), variables', w')
                         else run_query_loop fuel srv self query variables' limit cursor'
                                (all_results @ items) (page + 1) w'))))"

definition run_query ::
  "nat \<Rightarrow> server \<Rightarrow> DiscoveryApiClient \<Rightarrow> string \<Rightarrow> dict option \<Rightarrow> int \<Rightarrow> world
     \<Rightarrow> json list outcome \<times> dict option \<times> world" where
  "run_query fuel srv self query variables limit w =
     run_query_loop fuel srv self query variables limit JNull [] 0 w"

section \<open>The webhook orchestrator (app.py, webhook_handler)\<close>

datatype WebhookEventType = ERROR | COMPLETED | STARTED

fun WebhookEventType_value :: "WebhookEventType \<Rightarrow> string" where
  "WebhookEventType_value ERROR = ''job.run.errored''"
| "WebhookEventType_value COMPLETED = ''job.run.completed''"
| "WebhookEventType_value STARTED = ''job.run.started''"

text \<open>
  The operands of the handler's comparison are Python objects of two kinds: a value
  decoded from JSON, or a member of \<^verbatim>\<open>WebhookEventType\<close>. The class derives from
  \<^verbatim>\<open>enum.Enum\<close> alone, so a member is equal to itself and to nothing else; a decoded
  value, a string included, is never equal to a member.
\<close>

datatype py_object = Decoded json | Member WebhookEventType

fun py_ne :: "py_object \<Rightarrow> py_object \<Rightarrow> bool" where
  "py_ne (Member a) (Member b) = (a \<noteq> b)"
| "py_ne (Decoded a) (Member b) = True"
| "py_ne (Member a) (Decoded b) = True"
| "py_ne (Decoded a) (Decoded b) = (a \<noteq> b)"

definition NODE_TYPES :: "string list" where
  "NODE_TYPES = [''Model'', ''Seed'', ''Snapshot'', ''Test'']"

definition QUERY :: string where
  "QUERY = ''
query Applied($environmentId: BigInt!, $filter: AppliedResourcesFilter!, $first: Int, $after: String) {
  environment(id: $environmentId) {
    applied {
      resources(filter: $filter, first: $first, after: $after) {
        edges {
          node {
            ... on ModelAppliedStateNode {
              modelExecutionInfo: executionInfo {
                compileCompletedAt
                compileStartedAt
                executeCompletedAt
                executeStartedAt
                executionTime
                lastJobDefinitionId
                lastRunError
                lastRunGeneratedAt
                lastRunId
                lastRunStatus
                lastSuccessJobDefinitionId
                lastSuccessRunId
                runElapsedTime
                runGeneratedAt
              }
              access
              alias
              database
              environmentId
              fqn
              group
              language
              materializedType
              modelingLayer
              name
              packageName
              projectId
              uniqueId
              schema
              resourceType
            }
            ... on TestAppliedStateNode {
              testExecutionInfo: executionInfo {
                compileCompletedAt
                compileStartedAt
                executeCompletedAt
                executeStartedAt
                executionTime
                lastJobDefinitionId
                lastRunError
                lastRunFailures
                lastRunGeneratedAt
                lastRunId
                lastRunStatus
                lastSuccessJobDefinitionId
                lastSuccessRunId
                runElapsedTime
                runGeneratedAt
              }
              environmentId
              fqn
              name
              projectId
              uniqueId
              resourceType
            }
            ... on SeedAppliedStateNode {
              seedExecutionInfo: executionInfo {
                compileCompletedAt
                compileStartedAt
                executeCompletedAt
                executeStartedAt
                executionTime
                lastJobDefinitionId
                lastRunError
                lastRunGeneratedAt
                lastRunId
                lastRunStatus
                lastSuccessJobDefinitionId
                lastSuccessRunId
                runElapsedTime
                runGeneratedAt
              }
              alias
              database
              environmentId
              fqn
              name
              packageName
              projectId
              uniqueId
              schema
              resourceType
            }
            ... on SnapshotAppliedStateNode {
              snapshotExecutionInfo: executionInfo {
                compileCompletedAt
                compileStartedAt
                executeCompletedAt
                executeStartedAt
                executionTime
                lastJobDefinitionId
                lastRunError
                lastRunGeneratedAt
                lastRunId
                lastRunStatus
                lastSuccessJobDefinitionId
                lastSuccessRunId
                runElapsedTime
                runGeneratedAt
              }
              alias
              database
              environmentId
              fqn
              name
              packageName
              projectId
              uniqueId
              schema
              resourceType
            }
          }
        }
        pageInfo {
          endCursor
          hasNextPage
          hasPreviousPage
          startCursor
        }
        totalCount
      }
    }
  }
}
''"

text \<open>
  The collaborators of the handler that are not part of the repository: the functions of
  the Python library it calls on values (lowering a string, HMAC digest and its
  comparison, which may raise, JSON encoding, string formatting, parsing an int from a
  string, which may raise), the metadata API and the Datadog submission, which returns a
  response or raises.
\<close>

record platform =
  str_lower :: "string \<Rightarrow> string"
  hmac_sha256_hexdigest :: "string \<Rightarrow> string \<Rightarrow> string"
  compare_digest :: "string \<Rightarrow> string \<Rightarrow> py_error + bool"
  json_dumps :: "json \<Rightarrow> string"
  format_value :: "json \<Rightarrow> string"
  int_of_str :: "string \<Rightarrow> py_error + int"
  metadata_api :: server
  submit_log :: "log_item list \<Rightarrow> py_error + json"

text \<open>The inbound request: the \<^verbatim>\<open>authorization\<close> header, the raw body, and the body as
  \<^verbatim>\<open>request.json()\<close> decodes it (nothing when it is not JSON).\<close>

record request =
  authorization :: "string option"
  raw_body :: string
  json_body :: "json option"

definition verify_signature :: "platform \<Rightarrow> environ \<Rightarrow> request \<Rightarrow> py_error + unit" where
  "verify_signature p env req =
     (case (authorization req, DBT_CLOUD_WEBHOOK_SECRET env) of
        (Some signature, Some secret) \<Rightarrow>
          if signature = [] \<or> secret = []
          then Inl (HTTPException 400 ''Missing signature or secret'')
          else
            (case compare_digest p (hmac_sha256_hexdigest p secret (raw_body req)) signature of
               Inl e \<Rightarrow> Inl e
             | Inr same \<Rightarrow>
                 if \<not> same then Inl (HTTPException 401 ''Invalid signature'') else Inr ())
      | _ \<Rightarrow> Inl (HTTPException 400 ''Missing signature or secret''))"

text \<open>\<^verbatim>\<open>int(x)\<close>: a finite float is truncated towards zero, a string is parsed by the
  library.\<close>

fun py_int :: "platform \<Rightarrow> json \<Rightarrow> py_error + int" where
  "py_int p (JInt i) = Inr i"
| "py_int p (JBool b) = Inr (if b then 1 else 0)"
| "py_int p (JFloat (Finite r)) = Inr (if 0 \<le> r then \<lfloor>r\<rfloor> else \<lceil>r\<rceil>)"
| "py_int p (JFloat NaN) = Inl (ValueError ''cannot convert float NaN to integer'')"
| "py_int p (JFloat f) = Inl OverflowError"
| "py_int p (JStr s) = int_of_str p s"
| "py_int p _ = Inl TypeError"

text \<open>The \<^verbatim>\<open>tags\<close> dict display; its values are read in the order written.\<close>

definition build_tags :: "json \<Rightarrow> json \<Rightarrow> py_error + dict" where
  "build_tags payload data =
     (case subscript data ''projectName'' of Inl e \<Rightarrow> Inl e | Inr project_name \<Rightarrow>
      case subscript data ''environmentName'' of Inl e \<Rightarrow> Inl e | Inr environment_name \<Rightarrow>
      case subscript data ''jobName'' of Inl e \<Rightarrow> Inl e | Inr job_name \<Rightarrow>
      case subscript data ''runId'' of Inl e \<Rightarrow> Inl e | Inr run_id \<Rightarrow>
      case subscript payload ''webhookName'' of Inl e \<Rightarrow> Inl e | Inr webhook_name \<Rightarrow>
      case subscript data ''runReason'' of Inl e \<Rightarrow> Inl e | Inr run_reason \<Rightarrow>
        Inr [(''project_name'', project_name), (''environment_name'', environment_name),
             (''job_name'', job_name), (''run_id'', run_id),
             (''webhook_name'', webhook_name), (''run_reason'', run_reason)])"

text \<open>\<^verbatim>\<open>sep.join(parts)\<close>\<close>

fun join :: "string \<Rightarrow> string list \<Rightarrow> string" where
  "join sep [] = []"
| "join sep [x] = x"
| "join sep (x # y # ys) = x @ sep @ join sep (y # ys)"

text \<open>The item built for one node in the loop over \<open>nodes\<close>.\<close>

definition log_item_of :: "platform \<Rightarrow> dict \<Rightarrow> DiscoveryApiClient \<Rightarrow> json \<Rightarrow> log_item" where
  "log_item_of p tags client node =
     \<lparr>ddsource = ''dbt_cloud'',
      ddtags = join '','' (map (\<lambda>i. fst i @ '':'' @ format_value p (snd i)) tags),
      hostname = url client,
      message = json_dumps p node,
      service = ''dbt_cloud_webhooks''\<rparr>"

text \<open>The loop over \<^verbatim>\<open>chunker(logs)\<close>: each batch is submitted and the response logged.\<close>

fun submit_batches ::
  "platform \<Rightarrow> log_item list list \<Rightarrow> json list \<Rightarrow> world \<Rightarrow> (py_error + json list) \<times> world" where
  "submit_batches p [] responses w = (Inr responses, w)"
| "submit_batches p (log_items # rest) responses w =
     (let w1 = w\<lparr>submitted := submitted w @ [log_items]\<rparr>
      in case submit_log p log_items of
           Inl e \<Rightarrow> (Inl e, w1)
         | Inr response \<Rightarrow>
             submit_batches p rest (responses @ [response])
               (w1\<lparr>logged := logged w1 @ [LogInfo ''Datadog log submission response: '' response]\<rparr>))"

text \<open>The \<^verbatim>\<open>try\<close> statement around \<^verbatim>\<open>client.run_query\<close>: an exception is logged and
  raised again.\<close>

definition fetch_edges ::
  "nat \<Rightarrow> platform \<Rightarrow> DiscoveryApiClient \<Rightarrow> world \<Rightarrow> json list outcome \<times> world" where
  "fetch_edges fuel p client w =
     (case run_query fuel (metadata_api p) client QUERY
             (Some [(''filter'', JObj [(''types'', JList (map JStr NODE_TYPES))])]) 500 w of
        (Raised e, variables', w') \<Rightarrow>
          (Raised e, w'\<lparr>logged := logged w' @ [LogError ''Error getting run metadata: '' e]\<rparr>)
      | (r, variables', w') \<Rightarrow> (r, w'))"

text \<open>The body of \<^verbatim>\<open>if event_type != WebhookEventType.STARTED\<close>.\<close>

definition forward_run ::
  "nat \<Rightarrow> platform \<Rightarrow> environ \<Rightarrow> json \<Rightarrow> json \<Rightarrow> world \<Rightarrow> unit outcome \<times> world" where
  "forward_run fuel p env payload data w =
     (case build_tags payload data of Inl e \<Rightarrow> (Raised e, w) | Inr tags \<Rightarrow>
      case subscript data ''environmentId'' of Inl e \<Rightarrow> (Raised e, w) | Inr env_id \<Rightarrow>
      case DiscoveryApiClient_init env env_id of Inl e \<Rightarrow> (Raised e, w) | Inr client \<Rightarrow>
      case fetch_edges fuel p client w of
        (Raised e, w1) \<Rightarrow> (Raised e, w1)
      | (Running, w1) \<Rightarrow> (Running, w1)
      | (Returned edges, w1) \<Rightarrow>
          (case subscript data ''runId'' of Inl e \<Rightarrow> (Raised e, w1) | Inr run_id_value \<Rightarrow>
           case py_int p run_id_value of Inl e \<Rightarrow> (Raised e, w1) | Inr run_id \<Rightarrow>
           case get_run_metadata (str_lower p) edges run_id of Inl e \<Rightarrow> (Raised e, w1) | Inr nodes \<Rightarrow>
             (let logs = map (log_item_of p tags client) nodes
              in case submit_batches p (chunker logs) [] w1 of
                   (Inl e, w2) \<Rightarrow> (Raised e, w2)
                 | (Inr responses, w2) \<Rightarrow> (Returned (), w2))))"

definition webhook_handler ::
  "nat \<Rightarrow> platform \<Rightarrow> environ \<Rightarrow> request \<Rightarrow> world \<Rightarrow> json outcome \<times> world" where
  "webhook_handler fuel p env req w =
     (case verify_signature p env req of Inl e \<Rightarrow> (Raised e, w) | Inr _ \<Rightarrow>
      case json_body req of None \<Rightarrow> (Raised JSONDecodeError, w) | Some payload \<Rightarrow>
        (let w1 = w\<lparr>logged := logged w @ [LogInfo '' - webhook_handler - payload: '' payload]\<rparr>
         in case subscript payload ''data'' of Inl e \<Rightarrow> (Raised e, w1) | Inr data \<Rightarrow>
            case subscript payload ''eventType'' of Inl e \<Rightarrow> (Raised e, w1) | Inr event_type \<Rightarrow>
              if py_ne (Decoded event_type) (Member STARTED)
              then (case forward_run fuel p env payload data w1 of
                      (Returned _, w2) \<Rightarrow> (Returned (JObj [(''status'', JStr ''success'')]), w2)
                    | (Raised e, w2) \<Rightarrow> (Raised e, w2)
                    | (Running, w2) \<Rightarrow> (Running, w2))
              else (Returned (JObj [(''status'', JStr ''success'')]), w1)))"

section \<open>Notions used to state the properties\<close>

text \<open>A lowering for the examples: it lowers the letters A to Z, as \<^verbatim>\<open>str.lower\<close> does on a string of ASCII characters.\<close>

definition lower_char :: "char \<Rightarrow> char" where
  "lower_char c =
     (case map_of (zip ''ABCDEFGHIJKLMNOPQRSTUVWXYZ'' ''abcdefghijklmnopqrstuvwxyz'') c of
        None \<Rightarrow> c
      | Some l \<Rightarrow> l)"

definition ascii_lower :: "string \<Rightarrow> string" where
  "ascii_lower s = map lower_char s"

text \<open>Whether the loop of \<^verbatim>\<open>get_run_metadata\<close> keeps an edge: the truth value of \<open>in_run\<close> for its node.\<close>

definition in_run_edge :: "(string \<Rightarrow> string) \<Rightarrow> json \<Rightarrow> int \<Rightarrow> bool" where
  "in_run_edge lower edge run_id =
     (case subscript edge ''node'' of
        Inl e \<Rightarrow> False
      | Inr node \<Rightarrow>
          (case get_execution_info lower node run_id of
             Inl e \<Rightarrow> False
           | Inr (in_run, key) \<Rightarrow> py_truthy in_run))"

text \<open>What a reader of an output record finds at \<^verbatim>\<open>record["executionInfo"]["lastRunId"]\<close>.\<close>

definition last_run_id_of :: "json \<Rightarrow> py_error + json" where
  "last_run_id_of r =
     (case subscript r ''executionInfo'' of
        Inl e \<Rightarrow> Inl e
      | Inr info \<Rightarrow> subscript info ''lastRunId'')"

text \<open>The record the loop body appends for an edge it keeps.\<close>

definition record_of :: "(string \<Rightarrow> string) \<Rightarrow> int \<Rightarrow> json \<Rightarrow> json \<Rightarrow> bool" where
  "record_of lower run_id edge r \<longleftrightarrow>
     (\<exists>node in_run key. subscript edge ''node'' = Inr node
        \<and> get_execution_info lower node run_id = Inr (in_run, key)
        \<and> py_truthy in_run \<and> normalized_node node key = Inr r)"

text \<open>An edge list with two nodes of run 55 around a node of another run.\<close>

definition example_edges :: "json list" where
  "example_edges =
     [JObj [(''node'', JObj [(''resourceType'', JStr ''Model''), (''name'', JStr ''a''),
                            (''modelExecutionInfo'', JObj [(''lastRunId'', JInt 55)])])],
      JObj [(''node'', JObj [(''resourceType'', JStr ''Test''), (''name'', JStr ''b''),
                            (''testExecutionInfo'', JObj [(''lastRunId'', JInt 54)])])],
      JObj [(''node'', JObj [(''resourceType'', JStr ''Seed''), (''name'', JStr ''c''),
                            (''seedExecutionInfo'', JObj [(''lastRunId'', JInt 55)])])]]"

text \<open>The \<open>variables\<close> dict after the \<^verbatim>\<open>update\<close> of one page request.\<close>

definition page_variables :: "DiscoveryApiClient \<Rightarrow> dict option \<Rightarrow> json \<Rightarrow> int \<Rightarrow> dict" where
  "page_variables self variables after_cursor limit =
     dict_update (case variables of None \<Rightarrow> [] | Some d \<Rightarrow> d)
       [(''environmentId'', environment_id self), (''limit'', JInt limit),
        (''after'', after_cursor), (''first'', JInt limit)]"

text \<open>The request \<^verbatim>\<open>_run_query_with_cursor\<close> posts.\<close>

definition page_request ::
  "DiscoveryApiClient \<Rightarrow> string \<Rightarrow> dict option \<Rightarrow> json \<Rightarrow> int \<Rightarrow> http_request" where
  "page_request self query variables after_cursor limit =
     \<lparr>req_url = url self,
      req_json = JObj [(''query'', JStr query),
                       (''variables'', JObj (page_variables self variables after_cursor limit))],
      req_headers = [(''Authorization'', ''Bearer '' @ token self),
                     (''content-type'', ''application/json'')]\<rparr>"

text \<open>What \<^verbatim>\<open>_run_query_with_cursor\<close> makes of a response: the error of \<^verbatim>\<open>raise_for_status\<close>, or the decoded body.\<close>

definition response_result :: "http_response \<Rightarrow> py_error + json" where
  "response_result response =
     (case raise_for_status response of
        Inl e \<Rightarrow> Inl e
      | Inr _ \<Rightarrow> (case resp_json response of None \<Rightarrow> Inl JSONDecodeError | Some j \<Rightarrow> Inr j))"

text \<open>What one turn of the loop of \<^verbatim>\<open>run_query\<close> reads from a decoded page: the next cursor and the items to append.\<close>

definition page_result :: "json \<Rightarrow> py_error + (json \<times> json list)" where
  "page_result api_response =
     (case get_next_page_cursor api_response of
        Inl e \<Rightarrow> Inl e
      | Inr cursor \<Rightarrow>
          (case extract_query_results api_response of
             Inl e \<Rightarrow> Inl e
           | Inr results \<Rightarrow>
               (case py_iter results of Inl e \<Rightarrow> Inl e | Inr items \<Rightarrow> Inr (cursor, items))))"

text \<open>A decoded response body that is a page with the given edges and \<open>pageInfo\<close>.\<close>

definition page_body :: "json \<Rightarrow> json list \<Rightarrow> dict \<Rightarrow> bool" where
  "page_body j es page_info =
     (case subscripts j [''data'', ''environment'', ''applied'', ''resources''] of
        Inl e \<Rightarrow> False
      | Inr resources \<Rightarrow>
          subscript resources ''edges'' = Inr (JList es)
          \<and> subscript resources ''pageInfo'' = Inr (JObj page_info))"

text \<open>The \<open>after\<close> variable a request carries.\<close>

definition sent_after :: "http_request \<Rightarrow> py_error + json" where
  "sent_after r = subscripts (req_json r) [''variables'', ''after'']"

text \<open>Example inputs: a world in which nothing has happened yet, edges, pages of the metadata API, servers, and the collaborators of the handler.\<close>

definition empty_world :: world where
  "empty_world = \<lparr>requests = [], logged = [], submitted = []\<rparr>"

definition model_edge :: "string \<Rightarrow> int \<Rightarrow> json" where
  "model_edge name run =
     JObj [(''node'', JObj [(''modelExecutionInfo'', JObj [(''lastRunId'', JInt run)]),
                            (''name'', JStr name), (''resourceType'', JStr ''Model'')])]"

definition page_json :: "json list \<Rightarrow> dict \<Rightarrow> json" where
  "page_json es page_info =
     JObj [(''data'', JObj [(''environment'', JObj [(''applied'', JObj [(''resources'',
       JObj [(''edges'', JList es), (''pageInfo'', JObj page_info),
             (''totalCount'', JInt (int (length es)))])])])])]"

definition first_page :: json where
  "first_page = page_json [model_edge ''a'' 55]
     [(''endCursor'', JStr ''c1''), (''hasNextPage'', JBool True)]"

definition last_page :: json where
  "last_page = page_json [model_edge ''b'' 54]
     [(''endCursor'', JNull), (''hasNextPage'', JBool False)]"

definition two_page_api :: server where
  "two_page_api n r =
     \<lparr>status_code = 200, resp_json = Some (if n = 0 then first_page else last_page)\<rparr>"

definition second_page_fails_api :: server where
  "second_page_fails_api n r =
     (if n = 0 then \<lparr>status_code = 200, resp_json = Some first_page\<rparr>
      else \<lparr>status_code = 503, resp_json = None\<rparr>)"

definition example_client :: DiscoveryApiClient where
  "example_client = \<lparr>environment_id = JInt 10, token = ''tok'', url = DEFAULT_URL\<rparr>"

definition example_platform :: "server \<Rightarrow> platform" where
  "example_platform api =
     \<lparr>str_lower = ascii_lower,
      hmac_sha256_hexdigest = (\<lambda>secret payload. ''digest''),
      compare_digest = (\<lambda>a b. Inr (a = b)),
      json_dumps = (\<lambda>j. ''{}''),
      format_value = (\<lambda>v. case v of JStr s \<Rightarrow> s | _ \<Rightarrow> ''?''),
      int_of_str = (\<lambda>s. if s = ''55'' then Inr 55
                        else Inl (ValueError ''invalid literal for int() with base 10'')),
      metadata_api = api,
      submit_log = (\<lambda>items. Inr (JObj []))\<rparr>"

definition example_environ :: "string option \<Rightarrow> environ" where
  "example_environ tok =
     \<lparr>DBT_CLOUD_SERVICE_TOKEN = tok, DBT_CLOUD_METADATA_URL = None,
      DBT_CLOUD_WEBHOOK_SECRET = Some ''shared''\<rparr>"

definition example_request :: "string \<Rightarrow> request" where
  "example_request event_type =
     \<lparr>authorization = Some ''digest'', raw_body = ''body'',
      json_body = Some (JObj [(''eventType'', JStr event_type), (''webhookName'', JStr ''hook''),
        (''data'', JObj [(''runId'', JStr ''55''), (''environmentId'', JInt 10),
                         (''projectName'', JStr ''proj''), (''environmentName'', JStr ''prod''),
                         (''jobName'', JStr ''nightly''), (''runReason'', JStr ''scheduled'')])])\<rparr>"

definition example_data :: json where
  "example_data =
     JObj [(''runId'', JStr ''55''), (''environmentId'', JInt 10),
           (''projectName'', JStr ''proj''), (''environmentName'', JStr ''prod''),
           (''jobName'', JStr ''nightly''), (''runReason'', JStr ''scheduled'')]"

definition example_payload :: "string \<Rightarrow> json" where
  "example_payload event_type =
     JObj [(''eventType'', JStr event_type), (''webhookName'', JStr ''hook''),
           (''data'', example_data)]"

definition example_tags :: dict where
  "example_tags =
     [(''project_name'', JStr ''proj''), (''environment_name'', JStr ''prod''),
      (''job_name'', JStr ''nightly''), (''run_id'', JStr ''55''),
      (''webhook_name'', JStr ''hook''), (''run_reason'', JStr ''scheduled'')]"

text \<open>A caller's \<open>variables\<close> that already holds two of the keys the client sets.\<close>

definition stale_variables :: dict where
  "stale_variables = [(''filter'', JNull), (''after'', JStr ''stale''), (''limit'', JInt 1)]"

section \<open>Properties\<close>

subsection \<open>Dicts\<close>

lemma map_of_dict_set: "map_of (dict_set d k v) = (map_of d)(k \<mapsto> v)"
  by (induction d) (auto simp: fun_upd_twist)

lemma map_of_filter_neq: "map_of (filter (\<lambda>(k, _). k \<noteq> key) d) = (map_of d)(key := None)"
  by (induction d) (auto simp: fun_upd_twist)

subsection \<open>The extraction\<close>

lemma loop_append:
  "get_run_metadata_loop lower (pre @ rest) run_id acc =
     (case get_run_metadata_loop lower pre run_id acc of
        Inl e \<Rightarrow> Inl e
      | Inr acc' \<Rightarrow> get_run_metadata_loop lower rest run_id acc')"
  by (induction pre arbitrary: acc) (auto split: sum.splits prod.splits)

lemma dict_get_Inr: "dict_get x k dflt = Inr v \<Longrightarrow>
   \<exists>d. x = JObj d \<and> v = (case map_of d k of None \<Rightarrow> dflt | Some w \<Rightarrow> w)"
  by (cases x) (auto split: option.splits)

lemma py_lower_Inr:
  "py_lower lower x = Inr s \<Longrightarrow> \<exists>t. x = JStr t \<and> s = (if t = [] then [] else lower t)"
  by (cases x) auto

lemma in_run_shape:
  assumes "get_execution_info lower node run_id = Inr (in_run, key)" and "py_truthy in_run"
  shows "\<exists>d rt info v. node = JObj d \<and> map_of d ''resourceType'' = Some (JStr rt) \<and> rt \<noteq> []
           \<and> lower rt \<noteq> []
           \<and> key = Some (lower rt @ ''ExecutionInfo'')
           \<and> map_of d (lower rt @ ''ExecutionInfo'') = Some (JObj info)
           \<and> map_of info ''lastRunId'' = Some v \<and> py_eq_int v run_id"
proof -
  from assms(1) obtain rt0 where g1: "dict_get node ''resourceType'' (JStr '''') = Inr rt0"
    by (auto simp: get_execution_info_def split: sum.splits)
  then obtain d where d: "node = JObj d"
    and rt0: "rt0 = (case map_of d ''resourceType'' of None \<Rightarrow> JStr '''' | Some w \<Rightarrow> w)"
    by (auto dest: dict_get_Inr)
  from assms(1) g1 obtain resource_type where g2': "py_lower lower rt0 = Inr resource_type"
    by (auto simp: get_execution_info_def split: sum.splits)
  then obtain rt where rt0': "rt0 = JStr rt"
    and rs: "resource_type = (if rt = [] then [] else lower rt)"
    by (auto dest: py_lower_Inr)
  have "resource_type \<noteq> []"
    using assms g1 g2' by (auto simp: get_execution_info_def)
  with rs have ne: "rt \<noteq> []" and lne: "lower rt \<noteq> []" and rl: "resource_type = lower rt"
    by (auto split: if_splits)
  from g2' rl have g2: "py_lower lower rt0 = Inr (lower rt)" by simp
  note rt = rt0' lne
  with rt0 rt0' ne have res: "map_of d ''resourceType'' = Some (JStr rt)"
    by (auto split: option.splits)
  let ?k = "lower rt @ ''ExecutionInfo''"
  from assms(1) g1 g2 rt ne obtain info0 where g3: "dict_get node ?k JNull = Inr info0"
    by (auto simp: get_execution_info_def Let_def split: sum.splits)
  have tr: "py_truthy info0"
    using assms g1 g2 g3 rt ne by (auto simp: get_execution_info_def Let_def split: if_splits)
  from assms g1 g2 g3 rt ne tr obtain v where g4: "dict_get info0 ''lastRunId'' JNull = Inr v"
    and ir: "in_run = JBool (py_eq_int v run_id)" and key: "key = Some ?k"
    by (auto simp: get_execution_info_def Let_def split: sum.splits)
  from g4 obtain info where info: "info0 = JObj info"
    and v: "v = (case map_of info ''lastRunId'' of None \<Rightarrow> JNull | Some w \<Rightarrow> w)"
    by (auto dest: dict_get_Inr)
  from ir assms(2) have eq: "py_eq_int v run_id" by simp
  with v have lr: "map_of info ''lastRunId'' = Some v"
    by (auto split: option.splits)
  from g3 d info tr have "map_of d ?k = Some (JObj info)"
    by (auto split: option.splits)
  with d res ne lne key lr eq show ?thesis by blast
qed

lemma loop_records:
  "get_run_metadata_loop lower edges run_id acc = Inr out \<Longrightarrow>
     \<exists>new. out = acc @ new \<and>
       list_all2 (record_of lower run_id) (filter (\<lambda>e. in_run_edge lower e run_id) edges) new"
proof (induction edges arbitrary: acc)
  case Nil
  then show ?case by simp
next
  case (Cons edge edges)
  from Cons.prems obtain node where n: "subscript edge ''node'' = Inr node"
    by (auto split: sum.splits)
  from Cons.prems n obtain in_run key where g: "get_execution_info lower node run_id = Inr (in_run, key)"
    by (auto split: sum.splits)
  show ?case
  proof (cases "py_truthy in_run")
    case True
    from Cons.prems n g True obtain r where r: "normalized_node node key = Inr r"
      and rest: "get_run_metadata_loop lower edges run_id (acc @ [r]) = Inr out"
      by (auto split: sum.splits)
    from Cons.IH [OF rest] obtain new where new: "out = (acc @ [r]) @ new"
      "list_all2 (record_of lower run_id) (filter (\<lambda>e. in_run_edge lower e run_id) edges) new"
      by blast
    have "in_run_edge lower edge run_id" using n g True by (simp add: in_run_edge_def)
    moreover have "record_of lower run_id edge r" using n g True r by (auto simp: record_of_def)
    ultimately show ?thesis using new by (intro exI [of _ "r # new"]) simp
  next
    case False
    with Cons.prems n g have rest: "get_run_metadata_loop lower edges run_id acc = Inr out"
      by simp
    have "\<not> in_run_edge lower edge run_id" using n g False by (simp add: in_run_edge_def)
    with Cons.IH [OF rest] show ?thesis by simp
  qed
qed

lemma record_of_fields:
  assumes "record_of lower run_id edge r"
  shows "\<exists>d rt v rec. subscript edge ''node'' = Inr (JObj d)
           \<and> map_of d ''resourceType'' = Some (JStr rt) \<and> rt \<noteq> [] \<and> lower rt \<noteq> []
           \<and> map_of d (lower rt @ ''ExecutionInfo'') = Some v
           \<and> (\<exists>info w. v = JObj info \<and> map_of info ''lastRunId'' = Some w \<and> py_eq_int w run_id)
           \<and> r = JObj rec
           \<and> map_of rec = ((map_of d)(lower rt @ ''ExecutionInfo'' := None))(''executionInfo'' \<mapsto> v)"
proof -
  from assms obtain node in_run key where n: "subscript edge ''node'' = Inr node"
    and g: "get_execution_info lower node run_id = Inr (in_run, key)"
    and t: "py_truthy in_run" and r: "normalized_node node key = Inr r"
    by (auto simp: record_of_def)
  from in_run_shape [OF g t] obtain d rt info v where s: "node = JObj d"
    "map_of d ''resourceType'' = Some (JStr rt)" "rt \<noteq> []" "lower rt \<noteq> []"
    "key = Some (lower rt @ ''ExecutionInfo'')"
    "map_of d (lower rt @ ''ExecutionInfo'') = Some (JObj info)"
    "map_of info ''lastRunId'' = Some v" "py_eq_int v run_id"
    by blast
  from r s have "r = JObj (dict_set (filter (\<lambda>(k, _). k \<noteq> lower rt @ ''ExecutionInfo'') d) ''executionInfo'' (JObj info))"
    by simp
  with n s show ?thesis
    by (auto simp: map_of_dict_set map_of_filter_neq)
qed

text \<open>C2. Whatever \<^verbatim>\<open>str.lower\<close> computes: when \<^verbatim>\<open>get_run_metadata\<close> returns, its output is not longer than the edge list, every output record has an \<open>executionInfo.lastRunId\<close> equal (as \<^verbatim>\<open>==\<close> compares) to the target run id, and the output is, record by record and in order, the normalized nodes of the edges that are in the run.\<close>

theorem get_run_metadata_filters_in_order:
  assumes "get_run_metadata lower edges run_id = Inr out"
  shows "length out \<le> length edges
       \<and> (\<forall>r \<in> set out. \<exists>v. last_run_id_of r = Inr v \<and> py_eq_int v run_id)
       \<and> list_all2 (\<lambda>edge r. \<exists>node key. subscript edge ''node'' = Inr node
                                \<and> normalized_node node key = Inr r)
           (filter (\<lambda>e. in_run_edge lower e run_id) edges) out"
proof -
  let ?sel = "filter (\<lambda>e. in_run_edge lower e run_id) edges"
  from assms loop_records [of lower edges run_id "[]" out]
  have rel: "list_all2 (record_of lower run_id) ?sel out"
    by (simp add: get_run_metadata_def)
  then have "length out = length ?sel"
    by (simp add: list_all2_lengthD)
  then have len: "length out \<le> length edges"
    by simp
  have ids: "\<exists>v. last_run_id_of r = Inr v \<and> py_eq_int v run_id" if "r \<in> set out" for r
  proof -
    from rel that obtain edge where "record_of lower run_id edge r"
      by (auto simp: list_all2_conv_all_nth in_set_conv_nth)
    from record_of_fields [OF this] show ?thesis
      by (auto simp: last_run_id_of_def)
  qed
  have "list_all2 (\<lambda>edge r. \<exists>node key. subscript edge ''node'' = Inr node
                                \<and> normalized_node node key = Inr r) ?sel out"
    by (rule list_all2_mono [OF rel]) (auto simp: record_of_def)
  with len ids show ?thesis by blast
qed

lemma example_edges_run:
  "get_run_metadata ascii_lower example_edges 55 =
     Inr [JObj [(''resourceType'', JStr ''Model''), (''name'', JStr ''a''),
                (''executionInfo'', JObj [(''lastRunId'', JInt 55)])],
          JObj [(''resourceType'', JStr ''Seed''), (''name'', JStr ''c''),
                (''executionInfo'', JObj [(''lastRunId'', JInt 55)])]]"
  by (simp add: example_edges_def get_run_metadata_def get_execution_info_def ascii_lower_def lower_char_def)

theorem get_run_metadata_filters_in_order_witness:
  "get_run_metadata ascii_lower example_edges 55 =
     Inr [JObj [(''resourceType'', JStr ''Model''), (''name'', JStr ''a''),
                (''executionInfo'', JObj [(''lastRunId'', JInt 55)])],
          JObj [(''resourceType'', JStr ''Seed''), (''name'', JStr ''c''),
                (''executionInfo'', JObj [(''lastRunId'', JInt 55)])]]
   \<and> (2::nat) \<le> length example_edges
   \<and> (\<exists>v. last_run_id_of (JObj [(''resourceType'', JStr ''Seed''), (''name'', JStr ''c''),
                (''executionInfo'', JObj [(''lastRunId'', JInt 55)])]) = Inr v \<and> py_eq_int v 55)"
  using get_run_metadata_filters_in_order [OF example_edges_run] example_edges_run by simp

text \<open>C5. An edge whose node has no \<open>resourceType\<close>, or the empty string as \<open>resourceType\<close>, is not in the run whatever else the node holds: the output (or the error) of \<^verbatim>\<open>get_run_metadata\<close> is the same with and without that edge.\<close>

theorem skips_node_without_resource_type:
  assumes "subscript edge ''node'' = Inr (JObj d)"
    and "map_of d ''resourceType'' = None \<or> map_of d ''resourceType'' = Some (JStr '''')"
  shows "\<not> in_run_edge lower edge run_id
       \<and> get_run_metadata lower (pre @ edge # post) run_id = get_run_metadata lower (pre @ post) run_id"
proof -
  from assms(2) have g: "get_execution_info lower (JObj d) run_id = Inr (JNull, None)"
    by (auto simp: get_execution_info_def)
  with assms(1) have no: "\<not> in_run_edge lower edge run_id"
    by (simp add: in_run_edge_def)
  have step: "get_run_metadata_loop lower (edge # post) run_id acc = get_run_metadata_loop lower post run_id acc"
    for acc
    using assms(1) g by simp
  have "get_run_metadata_loop lower (pre @ edge # post) run_id [] = get_run_metadata_loop lower (pre @ post) run_id []"
    by (cases "get_run_metadata_loop lower pre run_id []")
      (simp_all add: loop_append step del: get_run_metadata_loop.simps)
  with no show ?thesis by (simp add: get_run_metadata_def)
qed

theorem skips_node_without_resource_type_witness:
  "get_run_metadata ascii_lower
     [JObj [(''node'', JObj [(''name'', JStr ''a''),
                             (''modelExecutionInfo'', JObj [(''lastRunId'', JInt 55)])])],
      JObj [(''node'', JObj [(''resourceType'', JStr ''''),
                             (''ExecutionInfo'', JObj [(''lastRunId'', JInt 55)])])]] 55 = Inr []"
proof -
  have a: "subscript (JObj [(''node'', JObj [(''name'', JStr ''a''),
                             (''modelExecutionInfo'', JObj [(''lastRunId'', JInt 55)])])]) ''node''
      = Inr (JObj [(''name'', JStr ''a''),
                   (''modelExecutionInfo'', JObj [(''lastRunId'', JInt 55)])])"
    by simp
  have b: "map_of [(''name'', JStr ''a''),
                   (''modelExecutionInfo'', JObj [(''lastRunId'', JInt 55)])] ''resourceType'' = None
         \<or> map_of [(''name'', JStr ''a''),
                   (''modelExecutionInfo'', JObj [(''lastRunId'', JInt 55)])] ''resourceType'' = Some (JStr '''')"
    by simp
  have c: "subscript (JObj [(''node'', JObj [(''resourceType'', JStr ''''),
                             (''ExecutionInfo'', JObj [(''lastRunId'', JInt 55)])])]) ''node''
      = Inr (JObj [(''resourceType'', JStr ''''),
                             (''ExecutionInfo'', JObj [(''lastRunId'', JInt 55)])])"
    by simp
  have d: "map_of [(''resourceType'', JStr ''''),
                   (''ExecutionInfo'', JObj [(''lastRunId'', JInt 55)])] ''resourceType'' = None
         \<or> map_of [(''resourceType'', JStr ''''),
                   (''ExecutionInfo'', JObj [(''lastRunId'', JInt 55)])] ''resourceType'' = Some (JStr '''')"
    by simp
  from skips_node_without_resource_type [OF a b, where lower = ascii_lower and run_id = 55
      and pre = "[]" and post = "[JObj [(''node'', JObj [(''resourceType'', JStr ''''),
                             (''ExecutionInfo'', JObj [(''lastRunId'', JInt 55)])])]]"]
    skips_node_without_resource_type [OF c d, where lower = ascii_lower and run_id = 55
      and pre = "[]" and post = "[]"]
  show ?thesis by (simp add: get_run_metadata_def)
qed

text \<open>C6, amended. Whatever \<^verbatim>\<open>str.lower\<close> computes, every output record comes from a matching node: the type-specific key (the lowered \<open>resourceType\<close> followed by \<open>ExecutionInfo\<close>) is gone, \<open>executionInfo\<close> holds the value that key had, and every field other than these two is as in the node.\<close>

theorem normalized_record_fields:
  assumes "get_run_metadata lower edges run_id = Inr out"
  shows "list_all2 (\<lambda>edge r. \<exists>d rt key v rec.
            subscript edge ''node'' = Inr (JObj d)
          \<and> map_of d ''resourceType'' = Some (JStr rt)
          \<and> key = lower rt @ ''ExecutionInfo''
          \<and> map_of d key = Some v
          \<and> r = JObj rec
          \<and> map_of rec ''executionInfo'' = Some v
          \<and> map_of rec key = None
          \<and> (\<forall>k. k \<noteq> key \<and> k \<noteq> ''executionInfo'' \<longrightarrow> map_of rec k = map_of d k))
        (filter (\<lambda>e. in_run_edge lower e run_id) edges) out"
proof -
  from assms loop_records [of lower edges run_id "[]" out]
  have rel: "list_all2 (record_of lower run_id) (filter (\<lambda>e. in_run_edge lower e run_id) edges) out"
    by (simp add: get_run_metadata_def)
  show ?thesis
  proof (rule list_all2_mono [OF rel])
    fix edge r
    assume "record_of lower run_id edge r"
    from record_of_fields [OF this] obtain d rt v rec where f:
      "subscript edge ''node'' = Inr (JObj d)"
      "map_of d ''resourceType'' = Some (JStr rt)" "lower rt \<noteq> []"
      "map_of d (lower rt @ ''ExecutionInfo'') = Some v"
      "r = JObj rec"
      "map_of rec = ((map_of d)(lower rt @ ''ExecutionInfo'' := None))(''executionInfo'' \<mapsto> v)"
      by blast
    have ne: "lower rt @ ''ExecutionInfo'' \<noteq> ''executionInfo''"
    proof
      assume eq: "lower rt @ ''ExecutionInfo'' = ''executionInfo''"
      then have "length (lower rt @ ''ExecutionInfo'') = length ''executionInfo''"
        by (rule arg_cong)
      then have "lower rt = []" by simp
      with f(3) show False by simp
    qed
    from f ne show "\<exists>d rt key v rec.
            subscript edge ''node'' = Inr (JObj d)
          \<and> map_of d ''resourceType'' = Some (JStr rt)
          \<and> key = lower rt @ ''ExecutionInfo''
          \<and> map_of d key = Some v
          \<and> r = JObj rec
          \<and> map_of rec ''executionInfo'' = Some v
          \<and> map_of rec key = None
          \<and> (\<forall>k. k \<noteq> key \<and> k \<noteq> ''executionInfo'' \<longrightarrow> map_of rec k = map_of d k)"
      by (intro exI [of _ d] exI [of _ rt] exI [of _ "lower rt @ ''ExecutionInfo''"] exI [of _ v] exI [of _ rec]) simp
  qed
qed

text \<open>C6, as stated, fails for a matching node that has a field \<open>executionInfo\<close> of its own: the output record does not keep that field's value.\<close>

theorem normalized_record_overwrites_executionInfo:
  "get_run_metadata ascii_lower
     [JObj [(''node'', JObj [(''resourceType'', JStr ''Model''),
                             (''executionInfo'', JStr ''x''),
                             (''modelExecutionInfo'', JObj [(''lastRunId'', JInt 5)])])]] 5
     = Inr [JObj [(''resourceType'', JStr ''Model''),
                  (''executionInfo'', JObj [(''lastRunId'', JInt 5)])]]
   \<and> map_of [(''resourceType'', JStr ''Model''),
             (''executionInfo'', JStr ''x''),
             (''modelExecutionInfo'', JObj [(''lastRunId'', JInt 5)])] ''executionInfo''
       = Some (JStr ''x'')
   \<and> ''executionInfo'' \<noteq> ''modelExecutionInfo''
   \<and> map_of [(''resourceType'', JStr ''Model''),
             (''executionInfo'', JObj [(''lastRunId'', JInt 5)])] ''executionInfo''
       \<noteq> Some (JStr ''x'')"
  by (simp add: get_run_metadata_def get_execution_info_def ascii_lower_def lower_char_def)

text \<open>C9. A node whose \<open>resourceType\<close> is present and not a string makes \<^verbatim>\<open>get_run_metadata\<close> raise (an \<open>AttributeError\<close> when the edge is the first), and so does an edge without the key \<open>node\<close> (a \<open>KeyError\<close>); neither is skipped.\<close>

theorem raises_on_malformed_edge:
  "(subscript edge1 ''node'' = Inr (JObj d) \<and> map_of d ''resourceType'' = Some v
      \<and> (\<forall>s. v \<noteq> JStr s)
      \<longrightarrow> get_run_metadata lower (edge1 # post) run_id = Inl AttributeError
        \<and> (\<exists>e. get_run_metadata lower (pre @ edge1 # post) run_id = Inl e))
   \<and> (edge2 = JObj ed \<and> map_of ed ''node'' = None
      \<longrightarrow> get_run_metadata lower (edge2 # post) run_id = Inl (KeyError ''node'')
        \<and> (\<exists>e. get_run_metadata lower (pre @ edge2 # post) run_id = Inl e))"
proof -
  have tail: "\<exists>e. get_run_metadata lower (pre @ edge # post) run_id = Inl e"
    if "\<And>acc. get_run_metadata_loop lower (edge # post) run_id acc = Inl err" for edge err
    by (cases "get_run_metadata_loop lower pre run_id []")
      (simp_all add: get_run_metadata_def loop_append that del: get_run_metadata_loop.simps)
  have one: "get_run_metadata_loop lower (edge1 # post) run_id acc = Inl AttributeError"
    if "subscript edge1 ''node'' = Inr (JObj d)" "map_of d ''resourceType'' = Some v"
      "\<forall>s. v \<noteq> JStr s" for acc
  proof -
    from that(3) have "py_lower lower v = Inl AttributeError" by (cases v) auto
    with that(2) have "get_execution_info lower (JObj d) run_id = Inl AttributeError"
      by (simp add: get_execution_info_def)
    with that(1) show ?thesis by simp
  qed
  have two: "get_run_metadata_loop lower (edge2 # post) run_id acc = Inl (KeyError ''node'')"
    if "edge2 = JObj ed" "map_of ed ''node'' = None" for acc
    using that by simp
  show ?thesis
    using one two tail [of edge1 AttributeError] tail [of edge2 "KeyError ''node''"]
    unfolding get_run_metadata_def by blast
qed

theorem raises_on_malformed_edge_witness:
  "get_run_metadata ascii_lower [JObj [(''node'', JObj [(''resourceType'', JNull)])]] 7 = Inl AttributeError
   \<and> get_run_metadata ascii_lower [JObj [(''name'', JStr ''a'')]] 7 = Inl (KeyError ''node'')"
  using raises_on_malformed_edge [where ?edge1.0 = "JObj [(''node'', JObj [(''resourceType'', JNull)])]"
      and d = "[(''resourceType'', JNull)]" and v = JNull and lower = ascii_lower
      and post = "[]" and run_id = 7 and pre = "[]"
      and ?edge2.0 = "JObj [(''name'', JStr ''a'')]" and ed = "[(''name'', JStr ''a'')]"]
  by simp

declare py_range.simps [simp del]

subsection \<open>The batcher\<close>

lemma concat_chunks:
  "0 < step \<Longrightarrow>
   concat (map (\<lambda>pos. slice seq pos (pos + step)) (py_range start (length seq) step)) = drop start seq"
proof (induction start "length seq" step rule: py_range.induct)
  case (1 start step)
  show ?case
  proof (cases "length seq \<le> start")
    case True
    then show ?thesis by (simp add: py_range.simps [of start])
  next
    case False
    with 1 have "concat (map (\<lambda>pos. slice seq pos (pos + step)) (py_range (start + step) (length seq) step))
        = drop (start + step) seq"
      by simp
    moreover have "take step (drop start seq) @ drop (start + step) seq = drop start seq"
      by (metis add.commute append_take_drop_id drop_drop)
    ultimately show ?thesis
      using False 1(2) by (simp add: py_range.simps [of start] slice_def)
  qed
qed

lemma py_range_eq:
  "0 < step \<Longrightarrow> py_range start stop step = map (\<lambda>i. start + i * step) [0..<(stop - start + step - 1) div step]"
proof (induction start stop step rule: py_range.induct)
  case (1 start stop step)
  show ?case
  proof (cases "stop \<le> start")
    case True
    with 1(2) have "(stop - start + step - 1) div step = 0" by simp
    with True show ?thesis by (simp add: py_range.simps [of start])
  next
    case False
    with 1 have ih: "py_range (start + step) stop step
        = map (\<lambda>i. start + step + i * step) [0..<(stop - (start + step) + step - 1) div step]"
      by simp
    define a b where "a = stop - (start + step) + step - 1" and "b = stop - start + step - 1"
    have cnt: "b div step = Suc (a div step)"
    proof (cases "start + step \<le> stop")
      case True
      with 1(2) have "b = a + step"
        unfolding a_def b_def by arith
      then show ?thesis using 1(2) by simp
    next
      case far: False
      with 1(2) have "a < step" "step \<le> b" "b < step + step"
        using False unfolding a_def b_def by arith+
      then have "a div step = 0" "b div step = 1"
        by (simp_all add: div_nat_eqI)
      then show ?thesis by simp
    qed
    have "map (\<lambda>i. start + i * step) [0..<Suc n] = start # map (\<lambda>i. start + step + i * step) [0..<n]" for n
      by (simp add: upt_conv_Cons map_Suc_upt [symmetric] add.assoc del: upt_Suc)
    with ih cnt False 1(2) show ?thesis
      unfolding a_def b_def by (simp add: py_range.simps [of start] del: upt_Suc)
  qed
qed

lemma ceil_div: "nat \<lceil>real n / 1000\<rceil> = (n + 999) div 1000"
proof -
  have "\<lceil>real n / 1000\<rceil> = \<lceil>of_int (int n) / (of_int 1000 :: real)\<rceil>" by simp
  also have "\<dots> = - (- int n div 1000)" by (rule ceiling_divide_eq_div)
  also have "\<dots> = int ((n + 999) div 1000)" by (simp add: zdiv_int)
  finally show ?thesis by simp
qed

lemma chunker_eq:
  "chunker seq = map (\<lambda>i. take 1000 (drop (i * 1000) seq)) [0..<(length seq + 999) div 1000]"
  by (simp add: chunker_def DATADOG_MAX_LIST_SIZE_def py_range_eq slice_def comp_def add.commute)

lemma concat_chunker: "concat (chunker seq) = seq"
  using concat_chunks [of DATADOG_MAX_LIST_SIZE seq 0]
  by (simp add: chunker_def DATADOG_MAX_LIST_SIZE_def)

text \<open>C4. For a sequence of length \<open>N\<close>, \<^verbatim>\<open>chunker\<close> yields \<open>ceil(N/1000)\<close> batches; the \<open>i\<close>-th is the slice of 1000 items from position \<open>1000 i\<close>; every batch but the last has exactly 1000 items, every batch is non-empty and has at most 1000; the batches concatenated give the sequence back; the empty sequence gives no batch.\<close>

theorem chunker_batches:
  "length (chunker seq) = nat \<lceil>real (length seq) / 1000\<rceil>
   \<and> (\<forall>i < length (chunker seq). chunker seq ! i = take 1000 (drop (i * 1000) seq))
   \<and> (\<forall>i. Suc i < length (chunker seq) \<longrightarrow> length (chunker seq ! i) = 1000)
   \<and> (\<forall>b \<in> set (chunker seq). 0 < length b \<and> length b \<le> 1000)
   \<and> concat (chunker seq) = seq
   \<and> (seq = [] \<longrightarrow> chunker seq = [])"
proof -
  let ?n = "length seq"
  let ?m = "(?n + 999) div 1000"
  have len: "length (chunker seq) = ?m" by (simp add: chunker_eq)
  have nth: "chunker seq ! i = take 1000 (drop (i * 1000) seq)" if "i < ?m" for i
    using that by (simp add: chunker_eq)
  have full: "length (chunker seq ! i) = 1000" if "Suc i < ?m" for i
  proof -
    from that have "Suc (Suc i) \<le> ?m" by simp
    then have "Suc (Suc i) * 1000 \<le> ?n + 999"
      by (simp only: less_eq_div_iff_mult_less_eq zero_less_numeral)
    then have "Suc i * 1000 \<le> ?n" by simp
    then have "1000 \<le> ?n - i * 1000" by simp
    with that show ?thesis by (simp add: nth)
  qed
  have part: "0 < length b \<and> length b \<le> 1000" if "b \<in> set (chunker seq)" for b
  proof -
    from that len obtain i where i: "i < ?m" "b = chunker seq ! i"
      by (metis in_set_conv_nth)
    then have "Suc i \<le> ?m" by simp
    then have "Suc i * 1000 \<le> ?n + 999"
      by (simp only: less_eq_div_iff_mult_less_eq zero_less_numeral)
    then have "i * 1000 < ?n" by simp
    with i show ?thesis by (simp add: nth)
  qed
  have "seq = [] \<longrightarrow> chunker seq = []" by (simp add: chunker_eq)
  with len nth full part concat_chunker [of seq] show ?thesis
    by (simp add: ceil_div)
qed

theorem chunker_batches_witness:
  "length (chunker (replicate 2001 (0::nat))) = 3
   \<and> length (chunker (replicate 2001 (0::nat)) ! 0) = 1000
   \<and> length (chunker (replicate 2001 (0::nat)) ! 2) = 1
   \<and> concat (chunker (replicate 2001 (0::nat))) = replicate 2001 0"
proof -
  define xs where "xs = replicate 2001 (0::nat)"
  have n: "length xs = 2001" by (simp add: xs_def)
  note t = chunker_batches [of xs]
  from t n have l: "length (chunker xs) = 3" by simp
  from t l have "chunker xs ! 0 = take 1000 (drop (0 * 1000) xs)"
    "chunker xs ! 2 = take 1000 (drop (2 * 1000) xs)"
    by simp_all
  with n have "length (chunker xs ! 0) = 1000" "length (chunker xs ! 2) = 1"
    by simp_all
  moreover from t have "concat (chunker xs) = xs" by blast
  ultimately show ?thesis using l unfolding xs_def by blast
qed

subsection \<open>The query client\<close>

lemma map_of_page_variables:
  "map_of (page_variables self variables c limit) =
     (map_of (case variables of None \<Rightarrow> [] | Some d \<Rightarrow> d))
       (''environmentId'' \<mapsto> environment_id self, ''limit'' \<mapsto> JInt limit,
        ''after'' \<mapsto> c, ''first'' \<mapsto> JInt limit)"
  by (simp add: page_variables_def map_of_dict_set)

lemma run_query_with_cursor_eq:
  "run_query_with_cursor srv self query variables c limit w =
     (response_result (srv (length (requests w)) (page_request self query variables c limit)),
      map_option (\<lambda>d. page_variables self variables c limit) variables,
      w\<lparr>logged := logged w @ [LogInfo '' - Querying API with after_cursor: '' c],
        requests := requests w @ [page_request self query variables c limit]\<rparr>)"
  by (cases variables)
    (simp_all add: run_query_with_cursor_def response_result_def page_request_def
      page_variables_def Let_def split: sum.splits option.splits)

lemma run_query_loop_Suc:
  "run_query_loop (Suc fuel) srv self query variables limit c acc page w =
     (let R = page_request self query variables c limit;
          vars2 = map_option (\<lambda>d. page_variables self variables c limit) variables;
          w2 = w\<lparr>logged := logged w @ [LogInfo '' - Querying API with after_cursor: '' c],
                  requests := requests w @ [R]\<rparr>
      in case response_result (srv (length (requests w)) R) of
           Inl e \<Rightarrow> (Raised e, vars2, w2)
         | Inr j \<Rightarrow>
             (case page_result j of
                Inl e \<Rightarrow> (Raised e, vars2, w2)
              | Inr (c', items) \<Rightarrow>
                  if \<not> py_truthy c' then (Returned (acc @ items), vars2, w2)
                  else run_query_loop fuel srv self query vars2 limit c' (acc @ items) (page + 1) w2))"
  by (simp add: run_query_with_cursor_eq page_result_def Let_def split: sum.splits)

declare run_query_loop.simps(2) [simp del]

lemma page_body_result:
  assumes "page_body j es page_info"
  shows "page_result j =
     (case map_of page_info ''hasNextPage'' of
        None \<Rightarrow> Inr (JNull, es)
      | Some h \<Rightarrow>
          if py_truthy h
          then (case map_of page_info ''endCursor'' of
                  None \<Rightarrow> Inl (KeyError ''endCursor'')
                | Some c \<Rightarrow> Inr (c, es))
          else Inr (JNull, es))"
  using assms
  by (auto simp: page_body_def page_result_def get_next_page_cursor_def
      extract_query_results_def split: sum.splits option.splits)

lemma run_query_loop_trace:
  "run_query_loop fuel srv self query variables limit c acc page w = (out, vars', w') \<Longrightarrow>
     \<exists>new. requests w' = requests w @ new \<and> submitted w' = submitted w
       \<and> (\<forall>r \<in> set new. \<exists>v a. r = page_request self query v a limit)"
proof (induction fuel arbitrary: variables c acc page w)
  case 0
  then show ?case by simp
next
  case (Suc fuel)
  let ?R = "page_request self query variables c limit"
  let ?v2 = "map_option (\<lambda>d. page_variables self variables c limit) variables"
  let ?w2 = "w\<lparr>logged := logged w @ [LogInfo '' - Querying API with after_cursor: '' c],
                  requests := requests w @ [?R]\<rparr>"
  have here: "\<exists>new. requests ?w2 = requests w @ new \<and> submitted ?w2 = submitted w
       \<and> (\<forall>r \<in> set new. \<exists>v a. r = page_request self query v a limit)"
    by (intro exI [of _ "[?R]"]) auto
  show ?case
  proof (cases "response_result (srv (length (requests w)) ?R)")
    case (Inl e)
    with Suc.prems have "w' = ?w2" by (simp add: run_query_loop_Suc Let_def)
    with here show ?thesis by simp
  next
    case (Inr j)
    show ?thesis
    proof (cases "page_result j")
      case (Inl e)
      with Suc.prems Inr have "w' = ?w2" by (simp add: run_query_loop_Suc Let_def)
      with here show ?thesis by simp
    next
      case res: (Inr ci)
      obtain c' items where ci: "ci = (c', items)" by (cases ci)
      show ?thesis
      proof (cases "py_truthy c'")
        case False
        with Suc.prems Inr res ci have "w' = ?w2" by (simp add: run_query_loop_Suc Let_def)
        with here show ?thesis by simp
      next
        case True
        with Suc.prems Inr res ci
        have "run_query_loop fuel srv self query ?v2 limit c' (acc @ items) (page + 1) ?w2 = (out, vars', w')"
          by (simp add: run_query_loop_Suc Let_def)
        from Suc.IH [OF this] obtain new where new: "requests w' = requests ?w2 @ new"
          "submitted w' = submitted ?w2"
          "\<forall>r \<in> set new. \<exists>v a. r = page_request self query v a limit"
          by blast
        then show ?thesis by (intro exI [of _ "?R # new"]) auto
      qed
    qed
  qed
qed

lemma run_query_loop_error_status:
  assumes "run_query_loop fuel srv self query variables limit c acc page w = (out, vars', w')"
    and "length (requests w) \<le> i" and "i < length (requests w')"
    and "raise_for_status (srv i (requests w' ! i)) = Inl e"
  shows "out = Raised e \<and> Suc i = length (requests w')"
  using assms
proof (induction fuel arbitrary: variables c acc page w)
  case 0
  then show ?case by simp
next
  case (Suc fuel)
  let ?n = "length (requests w)"
  let ?R = "page_request self query variables c limit"
  let ?v2 = "map_option (\<lambda>d. page_variables self variables c limit) variables"
  let ?w2 = "w\<lparr>logged := logged w @ [LogInfo '' - Querying API with after_cursor: '' c],
                  requests := requests w @ [?R]\<rparr>"
  from run_query_loop_trace [OF Suc.prems(1)] obtain new where
    new: "requests w' = requests w @ new" by blast
  have stop: ?case if w': "w' = ?w2" and out: "raise_for_status (srv ?n ?R) = Inl e \<Longrightarrow> out = Raised e"
  proof -
    from w' Suc.prems(2,3) have i: "i = ?n" by simp
    with w' have "requests w' ! i = ?R" by simp
    with Suc.prems(4) i out w' show ?thesis by simp
  qed
  show ?case
  proof (cases "response_result (srv ?n ?R)")
    case (Inl e')
    with Suc.prems(1) have "w' = ?w2" "out = Raised e'" by (simp_all add: run_query_loop_Suc Let_def)
    moreover have "e' = e" if "raise_for_status (srv ?n ?R) = Inl e"
      using that Inl by (simp add: response_result_def)
    ultimately show ?thesis by (intro stop) simp_all
  next
    case (Inr j)
    then have ok: "raise_for_status (srv ?n ?R) \<noteq> Inl e"
      by (auto simp: response_result_def split: sum.splits)
    show ?thesis
    proof (cases "page_result j")
      case (Inl e')
      with Suc.prems(1) Inr have "w' = ?w2" by (simp add: run_query_loop_Suc Let_def)
      with ok show ?thesis by (intro stop) simp_all
    next
      case res: (Inr ci)
      obtain c' items where ci: "ci = (c', items)" by (cases ci)
      show ?thesis
      proof (cases "py_truthy c'")
        case False
        with Suc.prems(1) Inr res ci have "w' = ?w2" by (simp add: run_query_loop_Suc Let_def)
        with ok show ?thesis by (intro stop) simp_all
      next
        case True
        with Suc.prems(1) Inr res ci
        have rec: "run_query_loop fuel srv self query ?v2 limit c' (acc @ items) (page + 1) ?w2 = (out, vars', w')"
          by (simp add: run_query_loop_Suc Let_def)
        from run_query_loop_trace [OF rec] obtain new2 where
          new2: "requests w' = (requests w @ [?R]) @ new2" by auto
        have "i \<noteq> ?n"
        proof
          assume "i = ?n"
          with new2 have "requests w' ! i = ?R" by (simp add: nth_append)
          with Suc.prems(4) \<open>i = ?n\<close> ok show False by simp
        qed
        with Suc.prems(2) have "length (requests ?w2) \<le> i" by simp
        from Suc.IH [OF rec this Suc.prems(3,4)] show ?thesis .
      qed
    qed
  qed
qed

lemma sent_after_page_request [simp]:
  "sent_after (page_request self query variables c limit) = Inr c"
  by (simp add: sent_after_def page_request_def subscripts_def map_of_page_variables)

lemma run_query_loop_pages:
  assumes "0 < k" and "k \<le> fuel" and "n = length (requests w)"
    and "\<forall>i. n \<le> i \<and> i < n + k \<longrightarrow>
           (\<forall>req. raise_for_status (srv i req) = Inr ()
              \<and> (\<exists>j. resp_json (srv i req) = Some j \<and> page_body j (pages i) (infos i)))"
    and "\<forall>i. n \<le> i \<and> Suc i < n + k \<longrightarrow>
           map_of (infos i) ''hasNextPage'' = Some (JBool True)
           \<and> (\<exists>cu. map_of (infos i) ''endCursor'' = Some cu \<and> py_truthy cu)"
    and "map_of (infos (n + k - 1)) ''hasNextPage'' = None
         \<or> map_of (infos (n + k - 1)) ''hasNextPage'' = Some (JBool False)"
  shows "\<exists>vars' w'.
           run_query_loop fuel srv self query variables limit c acc page w
             = (Returned (acc @ concat (map pages [n..<n + k])), vars', w')
           \<and> length (requests w') = n + k
           \<and> sent_after (requests w' ! n) = Inr c
           \<and> (\<forall>i. n \<le> i \<and> Suc i < n + k \<longrightarrow>
                 (\<exists>cu. map_of (infos i) ''endCursor'' = Some cu
                    \<and> sent_after (requests w' ! Suc i) = Inr cu))"
  using assms
proof (induction k arbitrary: fuel n variables c acc page w)
  case 0
  then show ?case by simp
next
  case (Suc k)
  from Suc.prems(2) obtain fuel' where fuel: "fuel = Suc fuel'" "k \<le> fuel'"
    by (cases fuel) auto
  let ?R = "page_request self query variables c limit"
  let ?v2 = "map_option (\<lambda>d. page_variables self variables c limit) variables"
  let ?w2 = "w\<lparr>logged := logged w @ [LogInfo '' - Querying API with after_cursor: '' c],
                  requests := requests w @ [?R]\<rparr>"
  from Suc.prems(4) have "raise_for_status (srv n ?R) = Inr ()
      \<and> (\<exists>j. resp_json (srv n ?R) = Some j \<and> page_body j (pages n) (infos n))"
    by simp
  then obtain j where j: "response_result (srv n ?R) = Inr j" "page_body j (pages n) (infos n)"
    by (auto simp: response_result_def)
  note pr = page_body_result [OF j(2)]
  show ?case
  proof (cases k)
    case 0
    with Suc.prems(6) have "page_result j = Inr (JNull, pages n)"
      by (auto simp: pr)
    with j(1) Suc.prems(3) fuel 0 show ?thesis
      by (auto simp: run_query_loop_Suc Let_def)
  next
    case (Suc k')
    with Suc.prems(5) obtain cu where cu: "map_of (infos n) ''hasNextPage'' = Some (JBool True)"
      "map_of (infos n) ''endCursor'' = Some cu" "py_truthy cu"
      by auto
    then have res: "page_result j = Inr (cu, pages n)"
      by (simp add: pr)
    have step: "run_query_loop fuel srv self query variables limit c acc page w
        = run_query_loop fuel' srv self query ?v2 limit cu (acc @ pages n) (page + 1) ?w2"
      using j(1) res cu(3) Suc.prems(3) fuel by (simp add: run_query_loop_Suc Let_def)
    have n2: "Suc n = length (requests ?w2)"
      using Suc.prems(3) by simp
    have a4: "\<forall>i. Suc n \<le> i \<and> i < Suc n + k \<longrightarrow>
           (\<forall>req. raise_for_status (srv i req) = Inr ()
              \<and> (\<exists>j. resp_json (srv i req) = Some j \<and> page_body j (pages i) (infos i)))"
      using Suc.prems(4) by simp
    have a5: "\<forall>i. Suc n \<le> i \<and> Suc i < Suc n + k \<longrightarrow>
           map_of (infos i) ''hasNextPage'' = Some (JBool True)
           \<and> (\<exists>cu. map_of (infos i) ''endCursor'' = Some cu \<and> py_truthy cu)"
      using Suc.prems(5) by simp
    have a6: "map_of (infos (Suc n + k - 1)) ''hasNextPage'' = None
         \<or> map_of (infos (Suc n + k - 1)) ''hasNextPage'' = Some (JBool False)"
      using Suc.prems(6) by simp
    have k0: "0 < k" using Suc by simp
    from Suc.IH [OF k0 fuel(2) n2 a4 a5 a6, of ?v2 cu "acc @ pages n" "page + 1"]
    obtain vars' w' where r:
      "run_query_loop fuel' srv self query ?v2 limit cu (acc @ pages n) (page + 1) ?w2
         = (Returned ((acc @ pages n) @ concat (map pages [Suc n..<Suc n + k])), vars', w')"
      "length (requests w') = Suc n + k"
      "sent_after (requests w' ! Suc n) = Inr cu"
      "\<forall>i. Suc n \<le> i \<and> Suc i < Suc n + k \<longrightarrow>
                 (\<exists>cu. map_of (infos i) ''endCursor'' = Some cu
                    \<and> sent_after (requests w' ! Suc i) = Inr cu)"
      by blast
    from run_query_loop_trace [OF r(1)] obtain new where
      "requests w' = (requests w @ [?R]) @ new" by auto
    with Suc.prems(3) have "requests w' ! n = ?R"
      by (simp add: nth_append)
    then have first: "sent_after (requests w' ! n) = Inr c" by simp
    have cat: "acc @ concat (map pages [n..<n + Suc k]) = (acc @ pages n) @ concat (map pages [Suc n..<Suc n + k])"
      by (simp add: upt_conv_Cons del: upt_Suc)
    have later: "\<exists>cu. map_of (infos i) ''endCursor'' = Some cu \<and> sent_after (requests w' ! Suc i) = Inr cu"
      if "n \<le> i \<and> Suc i < n + Suc k" for i
    proof (cases "i = n")
      case True
      with cu(2) r(3) show ?thesis by simp
    next
      case False
      with that have "Suc n \<le> i \<and> Suc i < Suc n + k" by simp
      with r(4) show ?thesis by blast
    qed
    from r(1,2) first later show ?thesis
      unfolding step cat by (intro exI [of _ vars'] exI [of _ w']) simp
  qed
qed

lemma run_query_loop_variables:
  assumes "run_query_loop fuel srv self query (Some vars) limit c acc page w = (out, vars', w')"
    and "0 < fuel"
  shows "\<exists>d a. vars' = Some d
           \<and> map_of d = (map_of vars)(''environmentId'' \<mapsto> environment_id self,
                 ''limit'' \<mapsto> JInt limit, ''after'' \<mapsto> a, ''first'' \<mapsto> JInt limit)
           \<and> requests w' \<noteq> []
           \<and> subscript (req_json (last (requests w'))) ''variables'' = Inr (JObj d)"
  using assms
proof (induction fuel arbitrary: vars c acc page w)
  case 0
  then show ?case by simp
next
  case (Suc fuel)
  let ?d2 = "page_variables self (Some vars) c limit"
  let ?R = "page_request self query (Some vars) c limit"
  let ?w2 = "w\<lparr>logged := logged w @ [LogInfo '' - Querying API with after_cursor: '' c],
                  requests := requests w @ [?R]\<rparr>"
  have here: ?case if "w' = ?w2" "vars' = Some ?d2"
    unfolding that
    by (intro exI [of _ ?d2] exI [of _ c])
      (simp add: map_of_page_variables page_request_def fun_eq_iff)
  show ?case
  proof (cases "response_result (srv (length (requests w)) ?R)")
    case (Inl e)
    with Suc.prems(1) have "w' = ?w2" "vars' = Some ?d2"
      by (simp_all add: run_query_loop_Suc Let_def)
    then show ?thesis by (rule here)
  next
    case (Inr j)
    show ?thesis
    proof (cases "page_result j")
      case (Inl e)
      with Suc.prems(1) Inr have "w' = ?w2" "vars' = Some ?d2"
        by (simp_all add: run_query_loop_Suc Let_def)
      then show ?thesis by (rule here)
    next
      case res: (Inr ci)
      obtain c' items where ci: "ci = (c', items)" by (cases ci)
      show ?thesis
      proof (cases "py_truthy c'")
        case False
        with Suc.prems(1) Inr res ci have "w' = ?w2" "vars' = Some ?d2"
          by (simp_all add: run_query_loop_Suc Let_def)
        then show ?thesis by (rule here)
      next
        case True
        with Suc.prems(1) Inr res ci
        have rec: "run_query_loop fuel srv self query (Some ?d2) limit c' (acc @ items) (page + 1) ?w2
            = (out, vars', w')"
          by (simp add: run_query_loop_Suc Let_def)
        show ?thesis
        proof (cases fuel)
          case 0
          with rec have "w' = ?w2" "vars' = Some ?d2" by simp_all
          then show ?thesis by (rule here)
        next
          case (Suc m)
          then have "0 < fuel" by simp
          from Suc.IH [OF rec this] obtain d a where d: "vars' = Some d"
            "map_of d = (map_of ?d2)(''environmentId'' \<mapsto> environment_id self,
                 ''limit'' \<mapsto> JInt limit, ''after'' \<mapsto> a, ''first'' \<mapsto> JInt limit)"
            "requests w' \<noteq> []"
            "subscript (req_json (last (requests w'))) ''variables'' = Inr (JObj d)"
            by blast
          from d(2) have "map_of d = (map_of vars)(''environmentId'' \<mapsto> environment_id self,
                 ''limit'' \<mapsto> JInt limit, ''after'' \<mapsto> a, ''first'' \<mapsto> JInt limit)"
            by (auto simp: map_of_page_variables)
          with d show ?thesis by blast
        qed
      qed
    qed
  qed
qed

subsection \<open>The orchestrator\<close>

lemma submit_batches_requests:
  "submit_batches p batches responses w = (r, w') \<Longrightarrow> requests w' = requests w"
  by (induction batches arbitrary: responses w) (auto simp: Let_def split: sum.splits)

lemma run_query_trace:
  assumes "run_query fuel srv self query variables limit w = (out, vars', w')"
  shows "\<exists>new. requests w' = requests w @ new \<and> submitted w' = submitted w
       \<and> (\<forall>r \<in> set new. \<exists>v a. r = page_request self query v a limit)"
  using assms unfolding run_query_def by (rule run_query_loop_trace)

lemma forward_run_cases:
  assumes "forward_run fuel p env payload data w = (out, w')"
  shows "(\<exists>e. out = Raised e \<and> w' = w)
       \<or> (\<exists>env_id client out1 vars1 w1.
             DiscoveryApiClient_init env env_id = Inr client
           \<and> run_query fuel (metadata_api p) client QUERY
                (Some [(''filter'', JObj [(''types'', JList (map JStr NODE_TYPES))])]) 500 w
                = (out1, vars1, w1)
           \<and> requests w' = requests w1
           \<and> (\<forall>e. out1 = Raised e \<longrightarrow> out = Raised e \<and> submitted w' = submitted w1
                  \<and> logged w' = logged w1 @ [LogError ''Error getting run metadata: '' e])
           \<and> (out1 = Running \<longrightarrow> out = Running \<and> w' = w1))"
proof (cases "build_tags payload data")
  case (Inl e)
  with assms show ?thesis by (auto simp: forward_run_def)
next
  case tags: (Inr tags)
  show ?thesis
  proof (cases "subscript data ''environmentId''")
    case (Inl e)
    with assms tags show ?thesis by (auto simp: forward_run_def)
  next
    case eid: (Inr env_id)
    show ?thesis
    proof (cases "DiscoveryApiClient_init env env_id")
      case (Inl e)
      with assms tags eid show ?thesis by (auto simp: forward_run_def)
    next
      case cl: (Inr client)
      let ?vars = "Some [(''filter'', JObj [(''types'', JList (map JStr NODE_TYPES))])]"
      obtain out1 vars1 w1 where rq:
        "run_query fuel (metadata_api p) client QUERY ?vars 500 w = (out1, vars1, w1)"
        by (cases "run_query fuel (metadata_api p) client QUERY ?vars 500 w") auto
      have "requests w' = requests w1
           \<and> (\<forall>e. out1 = Raised e \<longrightarrow> out = Raised e \<and> submitted w' = submitted w1
                  \<and> logged w' = logged w1 @ [LogError ''Error getting run metadata: '' e])
           \<and> (out1 = Running \<longrightarrow> out = Running \<and> w' = w1)"
      proof (cases out1)
        case (Raised e)
        with assms tags eid cl rq show ?thesis
          by (auto simp: forward_run_def fetch_edges_def)
      next
        case Running
        with assms tags eid cl rq show ?thesis
          by (auto simp: forward_run_def fetch_edges_def)
      next
        case (Returned edges)
        with rq have f: "fetch_edges fuel p client w = (Returned edges, w1)"
          by (simp add: fetch_edges_def)
        from assms tags eid cl f have "requests w' = requests w1"
          by (auto simp: forward_run_def Let_def split: sum.splits prod.splits
              dest: submit_batches_requests)
        with Returned show ?thesis by simp
      qed
      with cl rq show ?thesis by blast
    qed
  qed
qed

lemma webhook_handler_cases:
  assumes "webhook_handler fuel p env req w = (out, w')"
  shows "(\<exists>e. out = Raised e \<and> requests w' = requests w \<and> submitted w' = submitted w)
       \<or> (\<exists>payload data w1 out2.
             forward_run fuel p env payload data w1 = (out2, w')
           \<and> requests w1 = requests w \<and> submitted w1 = submitted w
           \<and> (\<forall>e. out2 = Raised e \<longrightarrow> out = Raised e)
           \<and> (out2 = Running \<longrightarrow> out = Running))"
proof (cases "verify_signature p env req")
  case (Inl e)
  with assms show ?thesis by (auto simp: webhook_handler_def)
next
  case sig: (Inr u)
  show ?thesis
  proof (cases "json_body req")
    case None
    with assms sig show ?thesis by (auto simp: webhook_handler_def)
  next
    case (Some payload)
    let ?w1 = "w\<lparr>logged := logged w @ [LogInfo '' - webhook_handler - payload: '' payload]\<rparr>"
    show ?thesis
    proof (cases "subscript payload ''data''")
      case (Inl e)
      with assms sig Some show ?thesis by (auto simp: webhook_handler_def)
    next
      case data: (Inr data)
      show ?thesis
      proof (cases "subscript payload ''eventType''")
        case (Inl e)
        with assms sig Some data show ?thesis by (auto simp: webhook_handler_def)
      next
        case (Inr event_type)
        obtain out2 w2 where f: "forward_run fuel p env payload data ?w1 = (out2, w2)"
          by (cases "forward_run fuel p env payload data ?w1") auto
        with assms sig Some data Inr have "w' = w2"
          "\<forall>e. out2 = Raised e \<longrightarrow> out = Raised e" "out2 = Running \<longrightarrow> out = Running"
          by (auto simp: webhook_handler_def split: outcome.splits)
        with f show ?thesis
          by (intro disjI2 exI [of _ payload] exI [of _ data] exI [of _ ?w1] exI [of _ out2]) simp
      qed
    qed
  qed
qed

subsection \<open>The examples\<close>

lemma page_body_page_json: "page_body (page_json es page_info) es page_info"
  by (simp add: page_body_def page_json_def subscripts_def)

lemma two_page_run:
  "run_query 2 two_page_api example_client q vars 500 empty_world =
     (Returned [model_edge ''a'' 55, model_edge ''b'' 54],
      map_option (\<lambda>d. page_variables example_client
          (map_option (\<lambda>d. page_variables example_client vars JNull 500) vars) (JStr ''c1'') 500) vars,
      \<lparr>requests = [page_request example_client q vars JNull 500,
                    page_request example_client q
                      (map_option (\<lambda>d. page_variables example_client vars JNull 500) vars)
                      (JStr ''c1'') 500],
        logged = [LogInfo '' - Querying API with after_cursor: '' JNull,
                  LogInfo '' - Querying API with after_cursor: '' (JStr ''c1'')],
        submitted = []\<rparr>)"
  by (cases vars)
    (simp_all add: run_query_def numeral_2_eq_2 run_query_loop_Suc Let_def two_page_api_def
      empty_world_def response_result_def raise_for_status_def first_page_def last_page_def
      page_body_result [OF page_body_page_json])

lemma failing_run:
  "run_query 2 second_page_fails_api example_client q vars 500 empty_world =
     (Raised (HTTPError 503),
      map_option (\<lambda>d. page_variables example_client
          (map_option (\<lambda>d. page_variables example_client vars JNull 500) vars) (JStr ''c1'') 500) vars,
      \<lparr>requests = [page_request example_client q vars JNull 500,
                    page_request example_client q
                      (map_option (\<lambda>d. page_variables example_client vars JNull 500) vars)
                      (JStr ''c1'') 500],
        logged = [LogInfo '' - Querying API with after_cursor: '' JNull,
                  LogInfo '' - Querying API with after_cursor: '' (JStr ''c1'')],
        submitted = []\<rparr>)"
  by (cases vars)
    (simp_all add: run_query_def numeral_2_eq_2 run_query_loop_Suc Let_def
      second_page_fails_api_def
      empty_world_def response_result_def raise_for_status_def first_page_def
      page_body_result [OF page_body_page_json])

text \<open>C3. If the first \<open>k\<close> responses (\<open>k \<ge> 1\<close>) are pages, each of the first \<open>k - 1\<close> with \<open>hasNextPage = true\<close> and a cursor, the \<open>k\<close>-th with \<open>hasNextPage\<close> false or absent, then \<^verbatim>\<open>run_query\<close> returns (with any fuel of at least \<open>k\<close>) the concatenation of the \<open>k\<close> pages' edges in order, after exactly \<open>k\<close> requests, the first with no cursor and each later one with the cursor of the page before it.\<close>

theorem run_query_pagination:
  assumes "0 < k" and "k \<le> fuel"
    and "\<forall>i<k. \<forall>r. raise_for_status (srv (length (requests w) + i) r) = Inr ()
            \<and> (\<exists>j. resp_json (srv (length (requests w) + i) r) = Some j
                  \<and> page_body j (pages i) (infos i))"
    and "\<forall>i. Suc i < k \<longrightarrow>
           map_of (infos i) ''hasNextPage'' = Some (JBool True)
           \<and> (\<exists>cu. map_of (infos i) ''endCursor'' = Some cu \<and> py_truthy cu)"
    and "map_of (infos (k - 1)) ''hasNextPage'' = None
         \<or> map_of (infos (k - 1)) ''hasNextPage'' = Some (JBool False)"
  shows "\<exists>vars' w'.
           run_query fuel srv self query variables limit w
             = (Returned (concat (map pages [0..<k])), vars', w')
           \<and> length (requests w') = length (requests w) + k
           \<and> sent_after (requests w' ! length (requests w)) = Inr JNull
           \<and> (\<forall>i. Suc i < k \<longrightarrow>
                 (\<exists>cu. map_of (infos i) ''endCursor'' = Some cu
                    \<and> sent_after (requests w' ! (length (requests w) + Suc i)) = Inr cu))"
proof -
  let ?n = "length (requests w)"
  let ?pages = "\<lambda>i. pages (i - ?n)"
  let ?infos = "\<lambda>i. infos (i - ?n)"
  have a4: "\<forall>i. ?n \<le> i \<and> i < ?n + k \<longrightarrow>
           (\<forall>r. raise_for_status (srv i r) = Inr ()
              \<and> (\<exists>j. resp_json (srv i r) = Some j \<and> page_body j (?pages i) (?infos i)))"
  proof (intro allI impI)
    fix i r
    assume "?n \<le> i \<and> i < ?n + k"
    then have "i - ?n < k" "?n + (i - ?n) = i" by arith+
    with assms(3) show "raise_for_status (srv i r) = Inr ()
              \<and> (\<exists>j. resp_json (srv i r) = Some j \<and> page_body j (?pages i) (?infos i))"
      by metis
  qed
  have a5: "\<forall>i. ?n \<le> i \<and> Suc i < ?n + k \<longrightarrow>
           map_of (?infos i) ''hasNextPage'' = Some (JBool True)
           \<and> (\<exists>cu. map_of (?infos i) ''endCursor'' = Some cu \<and> py_truthy cu)"
  proof (intro allI impI)
    fix i
    assume "?n \<le> i \<and> Suc i < ?n + k"
    then have "Suc (i - ?n) < k" by arith
    with assms(4) show "map_of (?infos i) ''hasNextPage'' = Some (JBool True)
           \<and> (\<exists>cu. map_of (?infos i) ''endCursor'' = Some cu \<and> py_truthy cu)"
      by blast
  qed
  have a6: "map_of (?infos (?n + k - 1)) ''hasNextPage'' = None
         \<or> map_of (?infos (?n + k - 1)) ''hasNextPage'' = Some (JBool False)"
  proof -
    from assms(1) have "?n + k - 1 - ?n = k - 1" by simp
    with assms(5) show ?thesis by simp
  qed
  from run_query_loop_pages [OF assms(1,2) refl a4 a5 a6, where self = self
      and query = query and variables = variables and limit = limit and c = JNull
      and acc = "[]" and page = 0]
  obtain vars' w' where r:
    "run_query_loop fuel srv self query variables limit JNull [] 0 w
       = (Returned ([] @ concat (map ?pages [?n..<?n + k])), vars', w')"
    "length (requests w') = ?n + k"
    "sent_after (requests w' ! ?n) = Inr JNull"
    "\<forall>i. ?n \<le> i \<and> Suc i < ?n + k \<longrightarrow>
         (\<exists>cu. map_of (?infos i) ''endCursor'' = Some cu
            \<and> sent_after (requests w' ! Suc i) = Inr cu)"
    by blast
  have "map ?pages [?n..<?n + k] = map pages [0..<k]"
    by (simp add: list_eq_iff_nth_eq)
  with r(1) have run: "run_query fuel srv self query variables limit w
      = (Returned (concat (map pages [0..<k])), vars', w')"
    by (simp add: run_query_def)
  have later: "\<exists>cu. map_of (infos i) ''endCursor'' = Some cu
                    \<and> sent_after (requests w' ! (?n + Suc i)) = Inr cu" if "Suc i < k" for i
  proof -
    from that have "?n \<le> ?n + i \<and> Suc (?n + i) < ?n + k" by simp
    with r(4) have "\<exists>cu. map_of (?infos (?n + i)) ''endCursor'' = Some cu
            \<and> sent_after (requests w' ! Suc (?n + i)) = Inr cu"
      by blast
    then show ?thesis by simp
  qed
  from run r(2,3) later show ?thesis by blast
qed

theorem run_query_pagination_witness:
  "\<exists>vars' w'.
     run_query 2 two_page_api example_client ''q'' None 500 empty_world
       = (Returned [model_edge ''a'' 55, model_edge ''b'' 54], vars', w')
     \<and> length (requests w') = 2
     \<and> sent_after (requests w' ! 0) = Inr JNull
     \<and> sent_after (requests w' ! 1) = Inr (JStr ''c1'')"
proof -
  let ?pages = "\<lambda>i::nat. if i = 0 then [model_edge ''a'' 55] else [model_edge ''b'' 54]"
  let ?infos = "\<lambda>i::nat. if i = 0 then [(''endCursor'', JStr ''c1''), (''hasNextPage'', JBool True)]
                  else [(''endCursor'', JNull), (''hasNextPage'', JBool False)]"
  have k: "0 < (2::nat)" "(2::nat) \<le> 2" by simp_all
  have a3: "\<forall>i<2. \<forall>r. raise_for_status (two_page_api (length (requests empty_world) + i) r) = Inr ()
            \<and> (\<exists>j. resp_json (two_page_api (length (requests empty_world) + i) r) = Some j
                  \<and> page_body j (?pages i) (?infos i))"
    by (simp add: two_page_api_def raise_for_status_def empty_world_def first_page_def
        last_page_def page_body_page_json)
  have a4: "\<forall>i. Suc i < 2 \<longrightarrow>
           map_of (?infos i) ''hasNextPage'' = Some (JBool True)
           \<and> (\<exists>cu. map_of (?infos i) ''endCursor'' = Some cu \<and> py_truthy cu)"
    by simp
  have a5: "map_of (?infos (2 - 1)) ''hasNextPage'' = None
         \<or> map_of (?infos (2 - 1)) ''hasNextPage'' = Some (JBool False)"
    by simp
  from run_query_pagination [OF k a3 a4 a5, where self = example_client
      and query = "''q''" and variables = None and limit = 500]
  obtain vars' w' where r:
    "run_query 2 two_page_api example_client ''q'' None 500 empty_world
       = (Returned (concat (map ?pages [0..<2])), vars', w')"
    "length (requests w') = length (requests empty_world) + 2"
    "sent_after (requests w' ! length (requests empty_world)) = Inr JNull"
    "\<forall>i. Suc i < 2 \<longrightarrow>
        (\<exists>cu. map_of (?infos i) ''endCursor'' = Some cu
           \<and> sent_after (requests w' ! (length (requests empty_world) + Suc i)) = Inr cu)"
    by blast
  have c: "concat (map ?pages [0..<2]) = [model_edge ''a'' 55, model_edge ''b'' 54]"
    by (simp add: numeral_2_eq_2)
  from r(4) have "\<exists>cu. map_of (?infos 0) ''endCursor'' = Some cu
           \<and> sent_after (requests w' ! (length (requests empty_world) + Suc 0)) = Inr cu"
    by simp
  then have "sent_after (requests w' ! 1) = Inr (JStr ''c1'')"
    by (simp add: empty_world_def)
  with r(1,2,3) c show ?thesis
    by (intro exI [of _ vars'] exI [of _ w']) (simp add: empty_world_def)
qed

text \<open>C7. If a page request is answered with a status that \<^verbatim>\<open>raise_for_status\<close> rejects, \<^verbatim>\<open>run_query\<close> raises that HTTP error whatever it has accumulated, the failing request is the last one it makes, and it submits nothing; the handler raises the same error, having logged it last, and has submitted no batch.\<close>

theorem error_status_aborts_fetch:
  "(run_query fuel srv self query variables limit w = (out, vars', w')
       \<and> length (requests w) \<le> i \<and> i < length (requests w')
       \<and> raise_for_status (srv i (requests w' ! i)) = Inl e
     \<longrightarrow> out = Raised e \<and> e = HTTPError (status_code (srv i (requests w' ! i)))
         \<and> Suc i = length (requests w') \<and> submitted w' = submitted w)
   \<and> (webhook_handler fuel p env req hw = (hout, hw')
       \<and> length (requests hw) \<le> j \<and> j < length (requests hw')
       \<and> raise_for_status (metadata_api p j (requests hw' ! j)) = Inl he
     \<longrightarrow> hout = Raised he \<and> Suc j = length (requests hw')
         \<and> submitted hw' = submitted hw
         \<and> last (logged hw') = LogError ''Error getting run metadata: '' he)"
proof (intro conjI impI)
  assume a: "run_query fuel srv self query variables limit w = (out, vars', w')
       \<and> length (requests w) \<le> i \<and> i < length (requests w')
       \<and> raise_for_status (srv i (requests w' ! i)) = Inl e"
  then have "run_query_loop fuel srv self query variables limit JNull [] 0 w = (out, vars', w')"
    by (simp add: run_query_def)
  from run_query_loop_error_status [OF this, of i e] a
  show "out = Raised e" "Suc i = length (requests w')" by blast+
  from a show "e = HTTPError (status_code (srv i (requests w' ! i)))"
    by (auto simp: raise_for_status_def split: if_splits)
  from a run_query_trace [of fuel srv self query variables limit w out vars' w']
  show "submitted w' = submitted w" by auto
next
  assume b: "webhook_handler fuel p env req hw = (hout, hw')
       \<and> length (requests hw) \<le> j \<and> j < length (requests hw')
       \<and> raise_for_status (metadata_api p j (requests hw' ! j)) = Inl he"
  with webhook_handler_cases [of fuel p env req hw hout hw']
  obtain payload data w1 out2 where h:
    "forward_run fuel p env payload data w1 = (out2, hw')"
    "requests w1 = requests hw" "submitted w1 = submitted hw"
    "\<forall>e. out2 = Raised e \<longrightarrow> hout = Raised e"
    by auto
  with b forward_run_cases [OF h(1)]
  obtain client out1 vars1 w2 where f:
    "run_query fuel (metadata_api p) client QUERY
        (Some [(''filter'', JObj [(''types'', JList (map JStr NODE_TYPES))])]) 500 w1
        = (out1, vars1, w2)"
    "requests hw' = requests w2"
    "\<forall>e. out1 = Raised e \<longrightarrow> out2 = Raised e \<and> submitted hw' = submitted w2
                  \<and> logged hw' = logged w2 @ [LogError ''Error getting run metadata: '' e]"
    by auto
  from f(1) have "run_query_loop fuel (metadata_api p) client QUERY
        (Some [(''filter'', JObj [(''types'', JList (map JStr NODE_TYPES))])]) 500 JNull [] 0 w1
        = (out1, vars1, w2)"
    by (simp add: run_query_def)
  from run_query_loop_error_status [OF this, of j he] b h(2) f(2)
  have r: "out1 = Raised he" "Suc j = length (requests w2)" by auto
  from run_query_trace [OF f(1)] have "submitted w2 = submitted w1" by blast
  with r f h
  show "hout = Raised he" "Suc j = length (requests hw')" "submitted hw' = submitted hw"
    "last (logged hw') = LogError ''Error getting run metadata: '' he"
    by simp_all
qed

lemma example_client_init:
  "DiscoveryApiClient_init (example_environ (Some ''tok'')) (JInt 10) = Inr example_client"
  by (simp add: DiscoveryApiClient_init_def example_environ_def example_client_def)

text \<open>C8. Without a service token the client constructor fails with the configuration error, and the handler raises without having sent a request. With a token \<open>t\<close> the constructor succeeds and every request of \<^verbatim>\<open>run_query\<close>, and of the handler, has the header \<open>Authorization: Bearer t\<close>.\<close>

theorem token_required_and_sent:
  "(DBT_CLOUD_SERVICE_TOKEN env1 = None \<longrightarrow>
       DiscoveryApiClient_init env1 env_id = Inl (ValueError ''DBT_CLOUD_SERVICE_TOKEN is not set'')
     \<and> (\<exists>e. fst (webhook_handler fuel p env1 req w) = Raised e)
     \<and> requests (snd (webhook_handler fuel p env1 req w)) = requests w)
   \<and> (DBT_CLOUD_SERVICE_TOKEN env2 = Some t \<longrightarrow>
       (\<exists>client. DiscoveryApiClient_init env2 env_id = Inr client \<and> token client = t
          \<and> (\<forall>r \<in> set (drop (length (requests w))
                 (requests (snd (snd (run_query fuel srv client query variables limit w))))).
                map_of (req_headers r) ''Authorization'' = Some (''Bearer '' @ t)))
     \<and> (\<forall>r \<in> set (drop (length (requests w)) (requests (snd (webhook_handler fuel p env2 req w)))).
           map_of (req_headers r) ''Authorization'' = Some (''Bearer '' @ t)))"
proof (intro conjI impI)
  assume none: "DBT_CLOUD_SERVICE_TOKEN env1 = None"
  then show "DiscoveryApiClient_init env1 env_id = Inl (ValueError ''DBT_CLOUD_SERVICE_TOKEN is not set'')"
    by (simp add: DiscoveryApiClient_init_def)
  obtain out w' where h: "webhook_handler fuel p env1 req w = (out, w')"
    by (cases "webhook_handler fuel p env1 req w") auto
  have "(\<exists>e. out = Raised e) \<and> requests w' = requests w"
    using webhook_handler_cases [OF h]
  proof
    assume "\<exists>e. out = Raised e \<and> requests w' = requests w \<and> submitted w' = submitted w"
    then show ?thesis by blast
  next
    assume "\<exists>payload data w1 out2.
             forward_run fuel p env1 payload data w1 = (out2, w')
           \<and> requests w1 = requests w \<and> submitted w1 = submitted w
           \<and> (\<forall>e. out2 = Raised e \<longrightarrow> out = Raised e)
           \<and> (out2 = Running \<longrightarrow> out = Running)"
    then obtain payload data w1 out2 where f:
      "forward_run fuel p env1 payload data w1 = (out2, w')" "requests w1 = requests w"
      "\<forall>e. out2 = Raised e \<longrightarrow> out = Raised e"
      by blast
    from forward_run_cases [OF f(1)] none have "\<exists>e. out2 = Raised e \<and> w' = w1"
      by (auto simp: DiscoveryApiClient_init_def)
    with f show ?thesis by auto
  qed
  with h show "\<exists>e. fst (webhook_handler fuel p env1 req w) = Raised e"
    "requests (snd (webhook_handler fuel p env1 req w)) = requests w"
    by simp_all
next
  assume some: "DBT_CLOUD_SERVICE_TOKEN env2 = Some t"
  have init: "token client = t" if "DiscoveryApiClient_init env2 e = Inr client" for e client
    using that some by (auto simp: DiscoveryApiClient_init_def)
  have sent: "\<forall>r \<in> set (drop (length (requests w0)) (requests w')).
                map_of (req_headers r) ''Authorization'' = Some (''Bearer '' @ token client)"
    if "run_query fuel srv' client q v l w0 = (out, vars', w')"
    for srv' client q v l w0 out vars' w'
  proof -
    from run_query_trace [OF that] obtain new where
      "requests w' = requests w0 @ new" "\<forall>r \<in> set new. \<exists>v a. r = page_request client q v a l"
      by blast
    then show ?thesis by (auto simp: page_request_def)
  qed
  obtain client where c: "DiscoveryApiClient_init env2 env_id = Inr client"
    using some by (auto simp: DiscoveryApiClient_init_def)
  obtain out vars' w' where r: "run_query fuel srv client query variables limit w = (out, vars', w')"
    by (cases "run_query fuel srv client query variables limit w") auto
  from sent [OF r] init [OF c] r c
  show "\<exists>client. DiscoveryApiClient_init env2 env_id = Inr client \<and> token client = t
          \<and> (\<forall>r \<in> set (drop (length (requests w))
                 (requests (snd (snd (run_query fuel srv client query variables limit w))))).
                map_of (req_headers r) ''Authorization'' = Some (''Bearer '' @ t))"
    by (intro exI [of _ client]) simp
  obtain hout hw' where h: "webhook_handler fuel p env2 req w = (hout, hw')"
    by (cases "webhook_handler fuel p env2 req w") auto
  have "\<forall>r \<in> set (drop (length (requests w)) (requests hw')).
           map_of (req_headers r) ''Authorization'' = Some (''Bearer '' @ t)"
    using webhook_handler_cases [OF h]
  proof
    assume "\<exists>e. hout = Raised e \<and> requests hw' = requests w \<and> submitted hw' = submitted w"
    then show ?thesis by auto
  next
    assume "\<exists>payload data w1 out2.
             forward_run fuel p env2 payload data w1 = (out2, hw')
           \<and> requests w1 = requests w \<and> submitted w1 = submitted w
           \<and> (\<forall>e. out2 = Raised e \<longrightarrow> hout = Raised e)
           \<and> (out2 = Running \<longrightarrow> hout = Running)"
    then obtain payload data w1 out2 where f:
      "forward_run fuel p env2 payload data w1 = (out2, hw')" "requests w1 = requests w"
      by blast
    from forward_run_cases [OF f(1)] show ?thesis
    proof
      assume "\<exists>e. out2 = Raised e \<and> hw' = w1"
      with f(2) show ?thesis by auto
    next
      assume "\<exists>env_id client out1 vars1 w2.
             DiscoveryApiClient_init env2 env_id = Inr client
           \<and> run_query fuel (metadata_api p) client QUERY
                (Some [(''filter'', JObj [(''types'', JList (map JStr NODE_TYPES))])]) 500 w1
                = (out1, vars1, w2)
           \<and> requests hw' = requests w2
           \<and> (\<forall>e. out1 = Raised e \<longrightarrow> out2 = Raised e \<and> submitted hw' = submitted w2
                  \<and> logged hw' = logged w2 @ [LogError ''Error getting run metadata: '' e])
           \<and> (out1 = Running \<longrightarrow> out2 = Running \<and> hw' = w2)"
      then obtain e2 client2 out1 vars1 w2 where g:
        "DiscoveryApiClient_init env2 e2 = Inr client2"
        "run_query fuel (metadata_api p) client2 QUERY
                (Some [(''filter'', JObj [(''types'', JList (map JStr NODE_TYPES))])]) 500 w1
                = (out1, vars1, w2)"
        "requests hw' = requests w2"
        by blast
      from sent [OF g(2)] init [OF g(1)] g(3) f(2) show ?thesis by simp
    qed
  qed
  with h show "\<forall>r \<in> set (drop (length (requests w)) (requests (snd (webhook_handler fuel p env2 req w)))).
           map_of (req_headers r) ''Authorization'' = Some (''Bearer '' @ t)"
    by simp
qed

text \<open>C10. Called with a dict as \<open>variables\<close>, \<^verbatim>\<open>run_query\<close> leaves in the caller's dict the keys \<open>environmentId\<close>, \<open>limit\<close>, \<open>first\<close> and \<open>after\<close> set, whatever they held, and every other key as it was; the dict is the one its last request carried, and every request carried these keys.\<close>

theorem run_query_mutates_variables:
  assumes "run_query fuel srv self query (Some vars) limit w = (out, vars', w')" and "0 < fuel"
  shows "\<exists>d a. vars' = Some d
     \<and> map_of d ''environmentId'' = Some (environment_id self)
     \<and> map_of d ''limit'' = Some (JInt limit)
     \<and> map_of d ''first'' = Some (JInt limit)
     \<and> map_of d ''after'' = Some a
     \<and> (\<forall>k. k \<notin> {''environmentId'', ''limit'', ''first'', ''after''} \<longrightarrow> map_of d k = map_of vars k)
     \<and> requests w' \<noteq> []
     \<and> subscript (req_json (last (requests w'))) ''variables'' = Inr (JObj d)
     \<and> (\<forall>r \<in> set (drop (length (requests w)) (requests w')).
           \<exists>dv. subscript (req_json r) ''variables'' = Inr (JObj dv)
              \<and> map_of dv ''environmentId'' = Some (environment_id self)
              \<and> map_of dv ''limit'' = Some (JInt limit)
              \<and> map_of dv ''first'' = Some (JInt limit)
              \<and> map_of dv ''after'' \<noteq> None)"
proof -
  from assms(1) have l: "run_query_loop fuel srv self query (Some vars) limit JNull [] 0 w = (out, vars', w')"
    by (simp add: run_query_def)
  from run_query_loop_variables [OF l assms(2)] obtain d a where d: "vars' = Some d"
    "map_of d = (map_of vars)(''environmentId'' \<mapsto> environment_id self,
                 ''limit'' \<mapsto> JInt limit, ''after'' \<mapsto> a, ''first'' \<mapsto> JInt limit)"
    "requests w' \<noteq> []"
    "subscript (req_json (last (requests w'))) ''variables'' = Inr (JObj d)"
    by blast
  from run_query_trace [OF assms(1)] obtain new where new:
    "requests w' = requests w @ new" "\<forall>r \<in> set new. \<exists>v a. r = page_request self query v a limit"
    by blast
  have each: "\<forall>r \<in> set (drop (length (requests w)) (requests w')).
           \<exists>dv. subscript (req_json r) ''variables'' = Inr (JObj dv)
              \<and> map_of dv ''environmentId'' = Some (environment_id self)
              \<and> map_of dv ''limit'' = Some (JInt limit)
              \<and> map_of dv ''first'' = Some (JInt limit)
              \<and> map_of dv ''after'' \<noteq> None"
  proof
    fix r
    assume "r \<in> set (drop (length (requests w)) (requests w'))"
    with new obtain v c where "r = page_request self query v c limit" by auto
    then show "\<exists>dv. subscript (req_json r) ''variables'' = Inr (JObj dv)
              \<and> map_of dv ''environmentId'' = Some (environment_id self)
              \<and> map_of dv ''limit'' = Some (JInt limit)
              \<and> map_of dv ''first'' = Some (JInt limit)
              \<and> map_of dv ''after'' \<noteq> None"
      by (intro exI [of _ "page_variables self v c limit"])
        (simp add: page_request_def map_of_page_variables)
  qed
  from d(2) have look: "map_of d ''environmentId'' = Some (environment_id self)"
    "map_of d ''limit'' = Some (JInt limit)" "map_of d ''first'' = Some (JInt limit)"
    "map_of d ''after'' = Some a"
    "\<forall>k. k \<notin> {''environmentId'', ''limit'', ''first'', ''after''} \<longrightarrow> map_of d k = map_of vars k"
    by simp_all
  with d(1,3,4) each show ?thesis by blast
qed

theorem normalized_record_fields_witness:
  "get_run_metadata ascii_lower example_edges 55 =
     Inr [JObj [(''resourceType'', JStr ''Model''), (''name'', JStr ''a''),
                (''executionInfo'', JObj [(''lastRunId'', JInt 55)])],
          JObj [(''resourceType'', JStr ''Seed''), (''name'', JStr ''c''),
                (''executionInfo'', JObj [(''lastRunId'', JInt 55)])]]
   \<and> length (filter (\<lambda>e. in_run_edge ascii_lower e 55) example_edges) = 2"
  using normalized_record_fields [OF example_edges_run] example_edges_run
  by (auto dest: list_all2_lengthD)

lemma chunker_single: "chunker [x] = [[x]]"
  by (simp add: chunker_eq)

lemma two_page_run_from:
  "requests w = [] \<Longrightarrow>
   run_query 2 two_page_api self q vars 500 w =
     (Returned [model_edge ''a'' 55, model_edge ''b'' 54],
      map_option (\<lambda>d. page_variables self
          (map_option (\<lambda>d. page_variables self vars JNull 500) vars) (JStr ''c1'') 500) vars,
      w\<lparr>logged := logged w @ [LogInfo '' - Querying API with after_cursor: '' JNull,
                  LogInfo '' - Querying API with after_cursor: '' (JStr ''c1'')],
        requests := [page_request self q vars JNull 500,
                    page_request self q
                      (map_option (\<lambda>d. page_variables self vars JNull 500) vars)
                      (JStr ''c1'') 500]\<rparr>)"
  by (cases vars)
    (simp_all add: run_query_def numeral_2_eq_2 run_query_loop_Suc Let_def two_page_api_def
      response_result_def raise_for_status_def first_page_def last_page_def
      page_body_result [OF page_body_page_json])

lemma failing_run_from:
  "requests w = [] \<Longrightarrow>
   run_query 2 second_page_fails_api self q vars 500 w =
     (Raised (HTTPError 503),
      map_option (\<lambda>d. page_variables self
          (map_option (\<lambda>d. page_variables self vars JNull 500) vars) (JStr ''c1'') 500) vars,
      w\<lparr>logged := logged w @ [LogInfo '' - Querying API with after_cursor: '' JNull,
                  LogInfo '' - Querying API with after_cursor: '' (JStr ''c1'')],
        requests := [page_request self q vars JNull 500,
                    page_request self q
                      (map_option (\<lambda>d. page_variables self vars JNull 500) vars)
                      (JStr ''c1'') 500]\<rparr>)"
  by (cases vars)
    (simp_all add: run_query_def numeral_2_eq_2 run_query_loop_Suc Let_def
      second_page_fails_api_def response_result_def raise_for_status_def first_page_def
      page_body_result [OF page_body_page_json])

lemma example_signature:
  "verify_signature (example_platform api) (example_environ tok) (example_request ev) = Inr ()"
  by (simp add: verify_signature_def example_platform_def example_environ_def example_request_def)

lemma example_extraction:
  "get_run_metadata ascii_lower [model_edge ''a'' 55, model_edge ''b'' 54] 55 =
     Inr [JObj [(''name'', JStr ''a''), (''resourceType'', JStr ''Model''),
                (''executionInfo'', JObj [(''lastRunId'', JInt 55)])]]"
  by (simp add: get_run_metadata_def get_execution_info_def ascii_lower_def lower_char_def model_edge_def)

lemma example_body: "json_body (example_request ev) = Some (example_payload ev)"
  by (simp add: example_request_def example_payload_def example_data_def)

lemma example_fields:
  "subscript (example_payload ev) ''data'' = Inr example_data"
  "subscript (example_payload ev) ''eventType'' = Inr (JStr ev)"
  "build_tags (example_payload ev) example_data = Inr example_tags"
  "subscript example_data ''environmentId'' = Inr (JInt 10)"
  "subscript example_data ''runId'' = Inr (JStr ''55'')"
  "int_of_str (example_platform api) ''55'' = Inr 55"
  "str_lower (example_platform api) = ascii_lower"
  by (simp_all add: example_payload_def example_data_def build_tags_def example_tags_def
      example_platform_def)

lemma example_api: "metadata_api (example_platform api) = api"
  by (simp add: example_platform_def)

lemma example_submit: "submit_log (example_platform api) items = Inr (JObj [])"
  by (simp add: example_platform_def)

lemma forward_two_page_run:
  assumes "requests w = []" and "submitted w = []"
  shows "\<exists>w'. forward_run 2 (example_platform two_page_api) (example_environ (Some ''tok''))
            (example_payload ev) example_data w = (Returned (), w')
          \<and> length (requests w') = 2 \<and> map length (submitted w') = [1]"
  using assms
  by (simp add: forward_run_def example_fields example_client_init fetch_edges_def example_api
      two_page_run_from example_extraction chunker_single example_submit Let_def)

lemma webhook_handler_example:
  "webhook_handler fuel (example_platform api) (example_environ tok) (example_request ev) empty_world =
     (case forward_run fuel (example_platform api) (example_environ tok) (example_payload ev)
             example_data
             (empty_world\<lparr>logged := logged empty_world
                @ [LogInfo '' - webhook_handler - payload: '' (example_payload ev)]\<rparr>) of
        (Returned u, w2) \<Rightarrow> (Returned (JObj [(''status'', JStr ''success'')]), w2)
      | (Raised e, w2) \<Rightarrow> (Raised e, w2)
      | (Running, w2) \<Rightarrow> (Running, w2))"
  by (simp add: webhook_handler_def example_signature example_body example_fields Let_def)

lemma handler_two_page_run:
  "\<exists>w'. webhook_handler 2 (example_platform two_page_api) (example_environ (Some ''tok''))
      (example_request ev) empty_world = (Returned (JObj [(''status'', JStr ''success'')]), w')
     \<and> length (requests w') = 2 \<and> map length (submitted w') = [1]"
proof -
  let ?w1 = "empty_world\<lparr>logged := logged empty_world
                @ [LogInfo '' - webhook_handler - payload: '' (example_payload ev)]\<rparr>"
  have "requests ?w1 = []" "submitted ?w1 = []" by (simp_all add: empty_world_def)
  from forward_two_page_run [OF this, of ev] obtain w' where f:
    "forward_run 2 (example_platform two_page_api) (example_environ (Some ''tok''))
            (example_payload ev) example_data ?w1 = (Returned (), w')
     \<and> length (requests w') = 2 \<and> map length (submitted w') = [1]" ..
  then have "webhook_handler 2 (example_platform two_page_api) (example_environ (Some ''tok''))
      (example_request ev) empty_world = (Returned (JObj [(''status'', JStr ''success'')]), w')"
    by (simp add: webhook_handler_example)
  with f show ?thesis by (intro exI [of _ w']) simp
qed

lemma forward_failing_run:
  assumes "requests w = []" and "submitted w = []"
  shows "\<exists>w'. forward_run 2 (example_platform second_page_fails_api)
            (example_environ (Some ''tok'')) (example_payload ev) example_data w
            = (Raised (HTTPError 503), w')
          \<and> length (requests w') = 2 \<and> submitted w' = []"
  using assms
  by (simp add: forward_run_def example_fields example_client_init fetch_edges_def example_api
      failing_run_from Let_def)

lemma handler_failing_run:
  "\<exists>w'. webhook_handler 2 (example_platform second_page_fails_api) (example_environ (Some ''tok''))
      (example_request ev) empty_world = (Raised (HTTPError 503), w')
     \<and> length (requests w') = 2 \<and> submitted w' = []"
proof -
  let ?w1 = "empty_world\<lparr>logged := logged empty_world
                @ [LogInfo '' - webhook_handler - payload: '' (example_payload ev)]\<rparr>"
  have "requests ?w1 = []" "submitted ?w1 = []" by (simp_all add: empty_world_def)
  from forward_failing_run [OF this, of ev] obtain w' where f:
    "forward_run 2 (example_platform second_page_fails_api) (example_environ (Some ''tok''))
            (example_payload ev) example_data ?w1 = (Raised (HTTPError 503), w')
     \<and> length (requests w') = 2 \<and> submitted w' = []" ..
  then have "webhook_handler 2 (example_platform second_page_fails_api)
      (example_environ (Some ''tok'')) (example_request ev) empty_world
      = (Raised (HTTPError 503), w')"
    by (simp add: webhook_handler_example)
  with f show ?thesis by (intro exI [of _ w']) simp
qed

text \<open>C1. The claim: for an event of type \<open>job.run.started\<close> the handler fetches nothing, extracts nothing, submits nothing, and returns success. The handler compares the decoded string with the enum member, which are never equal, so the guard always holds: on a started event served by a two-page API it posts both page requests and submits a batch of one log item before it returns success.\<close>

theorem started_event_still_fetches:
  "fst (webhook_handler 2 (example_platform two_page_api) (example_environ (Some ''tok''))
          (example_request ''job.run.started'') empty_world)
     = Returned (JObj [(''status'', JStr ''success'')])
   \<and> length (requests (snd (webhook_handler 2 (example_platform two_page_api)
          (example_environ (Some ''tok'')) (example_request ''job.run.started'') empty_world))) = 2
   \<and> map length (submitted (snd (webhook_handler 2 (example_platform two_page_api)
          (example_environ (Some ''tok'')) (example_request ''job.run.started'') empty_world))) = [1]"
proof -
  from handler_two_page_run [of "''job.run.started''"] obtain w' where
    "webhook_handler 2 (example_platform two_page_api) (example_environ (Some ''tok''))
      (example_request ''job.run.started'') empty_world
       = (Returned (JObj [(''status'', JStr ''success'')]), w')
     \<and> length (requests w') = 2 \<and> map length (submitted w') = [1]" ..
  then show ?thesis by simp
qed

theorem error_status_aborts_fetch_witness:
  "fst (run_query 2 second_page_fails_api example_client ''q'' None 500 empty_world)
     = Raised (HTTPError 503)
   \<and> length (requests (snd (snd (run_query 2 second_page_fails_api example_client ''q'' None 500
        empty_world)))) = 2
   \<and> fst (webhook_handler 2 (example_platform second_page_fails_api)
        (example_environ (Some ''tok'')) (example_request ''job.run.completed'') empty_world)
     = Raised (HTTPError 503)
   \<and> submitted (snd (webhook_handler 2 (example_platform second_page_fails_api)
        (example_environ (Some ''tok'')) (example_request ''job.run.completed'') empty_world)) = []"
proof -
  let ?P = "example_platform second_page_fails_api"
  let ?h = "webhook_handler 2 ?P (example_environ (Some ''tok''))
              (example_request ''job.run.completed'') empty_world"
  have bad: "raise_for_status (second_page_fails_api 1 r) = Inl (HTTPError 503)" for r
    by (simp add: second_page_fails_api_def raise_for_status_def)
  obtain out vars' w' where r: "run_query 2 second_page_fails_api example_client ''q'' None 500
      empty_world = (out, vars', w')" and n: "length (requests w') = 2"
    using failing_run [of "''q''" None] by simp
  from handler_failing_run [of "''job.run.completed''"] obtain hw' where
    h: "?h = (Raised (HTTPError 503), hw') \<and> length (requests hw') = 2 \<and> submitted hw' = []" ..
  note t = error_status_aborts_fetch [of 2 second_page_fails_api example_client "''q''" None 500
      empty_world out vars' w' 1 "HTTPError 503" ?P "example_environ (Some ''tok'')"
      "example_request ''job.run.completed''" empty_world "Raised (HTTPError 503)" hw' 1
      "HTTPError 503"]
  from t r n bad have "out = Raised (HTTPError 503)"
    by (simp add: empty_world_def)
  moreover from t h bad have "submitted hw' = submitted empty_world"
    by (simp add: empty_world_def example_api)
  ultimately show ?thesis using r n h by (simp add: empty_world_def)
qed

theorem token_required_and_sent_witness:
  "DiscoveryApiClient_init (example_environ None) (JInt 10)
     = Inl (ValueError ''DBT_CLOUD_SERVICE_TOKEN is not set'')
   \<and> requests (snd (webhook_handler 2 (example_platform two_page_api) (example_environ None)
        (example_request ''job.run.completed'') empty_world)) = []
   \<and> map_of (req_headers (requests (snd (webhook_handler 2 (example_platform two_page_api)
        (example_environ (Some ''tok'')) (example_request ''job.run.completed'') empty_world)) ! 0))
        ''Authorization'' = Some ''Bearer tok''"
proof -
  let ?P = "example_platform two_page_api"
  let ?R = "example_request ''job.run.completed''"
  note t = token_required_and_sent [where ?env1.0 = "example_environ None" and env_id = "JInt 10"
      and fuel = 2 and p = ?P and req = ?R and w = empty_world
      and ?env2.0 = "example_environ (Some ''tok'')" and t = "''tok''"
      and srv = two_page_api and query = "''q''" and variables = None and limit = 500]
  have none: "DBT_CLOUD_SERVICE_TOKEN (example_environ None) = None"
    and some: "DBT_CLOUD_SERVICE_TOKEN (example_environ (Some ''tok'')) = Some ''tok''"
    by (simp_all add: example_environ_def)
  from t none have a: "DiscoveryApiClient_init (example_environ None) (JInt 10)
       = Inl (ValueError ''DBT_CLOUD_SERVICE_TOKEN is not set'')"
    "requests (snd (webhook_handler 2 ?P (example_environ None) ?R empty_world)) = []"
    by (simp_all add: empty_world_def)
  from handler_two_page_run [of "''job.run.completed''"] obtain w' where
    h: "webhook_handler 2 ?P (example_environ (Some ''tok'')) ?R empty_world
          = (Returned (JObj [(''status'', JStr ''success'')]), w')
        \<and> length (requests w') = 2 \<and> map length (submitted w') = [1]" ..
  then have "requests w' ! 0 \<in> set (requests w')" by simp
  with t some h have "map_of (req_headers (requests w' ! 0)) ''Authorization'' = Some ''Bearer tok''"
    by (simp add: empty_world_def)
  with a h show ?thesis by simp
qed

theorem run_query_mutates_variables_witness:
  "\<exists>d. fst (snd (run_query 2 two_page_api example_client ''q'' (Some stale_variables) 500
             empty_world)) = Some d
     \<and> map_of d ''limit'' = Some (JInt 500)
     \<and> map_of d ''after'' = Some (JStr ''c1'')
     \<and> map_of d ''filter'' = Some JNull"
proof -
  obtain out vars' w' where r: "run_query 2 two_page_api example_client ''q''
      (Some stale_variables) 500 empty_world = (out, vars', w')"
    and v: "vars' = Some (page_variables example_client
          (Some (page_variables example_client (Some stale_variables) JNull 500)) (JStr ''c1'') 500)"
    using two_page_run [of "''q''" "Some stale_variables"] by simp
  have "0 < (2::nat)" by simp
  from run_query_mutates_variables [OF r this] obtain d a where d: "vars' = Some d"
    "map_of d ''limit'' = Some (JInt 500)"
    "\<forall>k. k \<notin> {''environmentId'', ''limit'', ''first'', ''after''} \<longrightarrow> map_of d k = map_of stale_variables k"
    by blast
  from d(3) have "map_of d ''filter'' = Some JNull"
    by (simp add: stale_variables_def)
  moreover from d(1) v have "d = page_variables example_client
          (Some (page_variables example_client (Some stale_variables) JNull 500)) (JStr ''c1'') 500"
    by simp
  then have "map_of d ''after'' = Some (JStr ''c1'')"
    by (simp add: map_of_page_variables)
  ultimately show ?thesis using r d(1,2) by simp
qed

end
